theory Spec2Isabelle
  imports
    Main
    "HOL-Library.Sublist"
    "HOL-Library.Char_ord"
    "HOL-Library.List_Lexorder"
    "HOL-Library.Product_Lexorder"
begin

section \<open>Python values used by \<^verbatim>\<open>git_analytics.py\<close>\<close>

text \<open>
  Strings are \<open>char list\<close>s holding the UTF-8 bytes of the Python text; the whitespace that
  \<^verbatim>\<open>str.strip\<close> removes is modelled for the ASCII range (space, tab, newline, vertical
  tab, form feed, carriage return and the separators 0x1C to 0x1F).
\<close>

definition py_isspace :: "char \<Rightarrow> bool" where
  "py_isspace c =
     (c = CHR '' '' \<or> c = CHR 0x09 \<or> c = CHR 0x0A \<or> c = CHR 0x0B \<or> c = CHR 0x0C \<or>
      c = CHR 0x0D \<or> c = CHR 0x1C \<or> c = CHR 0x1D \<or> c = CHR 0x1E \<or> c = CHR 0x1F)"

text \<open>\<^verbatim>\<open>s.strip()\<close>: leading and trailing whitespace removed.\<close>

definition py_strip :: "string \<Rightarrow> string" where
  "py_strip s = rev (dropWhile py_isspace (rev (dropWhile py_isspace s)))"

text \<open>\<^verbatim>\<open>sep.join(xs)\<close>.\<close>

fun py_join :: "string \<Rightarrow> string list \<Rightarrow> string" where
  "py_join sep [] = []"
| "py_join sep [x] = x"
| "py_join sep (x # y # ys) = x @ sep @ py_join sep (y # ys)"

text \<open>
  \<^verbatim>\<open>s.split(sep)\<close> for a non-empty separator: the pieces between the non-overlapping
  occurrences of \<open>sep\<close>, scanned from the left. \<open>cur\<close> holds the current piece, reversed.
\<close>

fun py_split_from :: "string \<Rightarrow> string \<Rightarrow> string \<Rightarrow> string list" where
  "py_split_from sep cur [] = [rev cur]"
| "py_split_from sep cur (x # xs) =
     (if sep \<noteq> [] \<and> prefix sep (x # xs)
      then rev cur # py_split_from sep [] (drop (length sep - 1) xs)
      else py_split_from sep (x # cur) xs)"

definition py_split :: "string \<Rightarrow> string \<Rightarrow> string list" where
  "py_split sep s = py_split_from sep [] s"

text \<open>\<^verbatim>\<open>pat in s\<close> for strings: \<open>pat\<close> occurs in \<open>s\<close> as a contiguous piece.\<close>

fun py_contains :: "string \<Rightarrow> string \<Rightarrow> bool" where
  "py_contains pat [] = (pat = [])"
| "py_contains pat (x # xs) = (prefix pat (x # xs) \<or> py_contains pat xs)"

text \<open>\<^verbatim>\<open>s.replace(old, new)\<close> for a non-empty \<open>old\<close>.\<close>

definition py_replace :: "string \<Rightarrow> string \<Rightarrow> string \<Rightarrow> string" where
  "py_replace old new s = py_join new (py_split old s)"

text \<open>\<^verbatim>\<open>str(n)\<close> for an integer: decimal digits, with a minus sign when negative.\<close>

fun digits_of :: "nat \<Rightarrow> string" where
  "digits_of n =
     (if n < 10 then [char_of (48 + n)]
      else digits_of (n div 10) @ [char_of (48 + n mod 10)])"

definition py_str_int :: "int \<Rightarrow> string" where
  "py_str_int i = (if i < 0 then CHR ''-'' # digits_of (nat (- i)) else digits_of (nat i))"

section \<open>Exceptions, processes and the world the program runs in\<close>

text \<open>
  The exception classes the source names in its handlers, each with its message;
  \<open>OtherError\<close> stands for every other class. \<open>CalledProcessError\<close> carries the return
  code and the captured standard error.
\<close>

datatype py_exn =
    CalledProcessError int string
  | FileNotFoundError string
  | JSONDecodeError string
  | TypeError string
  | AttributeError string
  | OtherError string

text \<open>
  What \<^verbatim>\<open>subprocess.run(argv, cwd=..., capture_output=True, text=True)\<close> does before
  \<open>check\<close> is looked at: it raises (the program is not installed, the directory is
  missing), or the process completes with a return code, its standard output and its
  standard error.
\<close>

datatype proc_outcome =
    Raises py_exn
  | Completed int string string

datatype json =
    JNull
  | JBool bool
  | JInt int
  | JStr string
  | JArr "json list"
  | JObj "(string \<times> json) list"

text \<open>
  \<^verbatim>\<open>requests.get(url, headers=..., timeout=10)\<close>: it raises, or answers with a status code
  and a body; \<^verbatim>\<open>response.json()\<close> raises or gives the decoded body.
\<close>

datatype http_outcome =
    HttpRaises py_exn
  | HttpResponse int "py_exn + json"

text \<open>
  Everything outside the program that it consults. Paths are resolved by the operating
  system against a directory: \<open>path_isfile E d p\<close> says whether \<open>p\<close>, resolved against
  the directory \<open>d\<close>, is a regular file. \<open>subprocess_run E cwd argv\<close> runs \<open>argv\<close> in the
  directory \<open>cwd\<close> (\<open>None\<close>: the working directory of the Python process).
\<close>

record env =
  subprocess_run :: "string option \<Rightarrow> string list \<Rightarrow> proc_outcome"
  process_cwd :: string
  os_abspath :: "string \<Rightarrow> string"
  path_isdir :: "string \<Rightarrow> string \<Rightarrow> bool"
  path_isfile :: "string \<Rightarrow> string \<Rightarrow> bool"
  open_readlines :: "string \<Rightarrow> string \<Rightarrow> py_exn + string list"
  set_iteration :: "string list \<Rightarrow> string list"
  weekday_name :: "string \<Rightarrow> string option"
  json_loads :: "string \<Rightarrow> json option"
  json_dumps :: "json \<Rightarrow> string"
  py_repr :: "json \<Rightarrow> string"
  http_get :: "string \<Rightarrow> (string \<times> string) list \<Rightarrow> http_outcome"
  environ_get :: "string \<Rightarrow> string option"
  now_strftime :: string
  now_isoformat :: string

text \<open>
  What the program does to the outside: the lines it prints, and the processes and HTTP
  requests it starts, in order.
\<close>

datatype invocation =
    Subprocess "string option" "string list"
  | HttpGet string "(string \<times> string) list"

record world =
  printed :: "string list"
  invoked :: "invocation list"

type_synonym 'a io = "world \<Rightarrow> (py_exn + 'a) \<times> world"

definition io_return :: "'a \<Rightarrow> 'a io" where
  "io_return x w = (Inr x, w)"

definition io_raise :: "py_exn \<Rightarrow> 'a io" where
  "io_raise e w = (Inl e, w)"

definition io_bind :: "'a io \<Rightarrow> ('a \<Rightarrow> 'b io) \<Rightarrow> 'b io" where
  "io_bind m f w = (case m w of (Inl e, w') \<Rightarrow> (Inl e, w') | (Inr x, w') \<Rightarrow> f x w')"

text \<open>\<^verbatim>\<open>try: m  except ...: h\<close>; the handler re-raises what its clause does not name.\<close>

definition io_catch :: "'a io \<Rightarrow> (py_exn \<Rightarrow> 'a io) \<Rightarrow> 'a io" where
  "io_catch m h w = (case m w of (Inl e, w') \<Rightarrow> h e w' | (Inr x, w') \<Rightarrow> (Inr x, w'))"

definition py_print :: "string \<Rightarrow> unit io" where
  "py_print s w = (Inr (), w\<lparr>printed := printed w @ [s]\<rparr>)"

text \<open>\<^verbatim>\<open>subprocess.run(argv, cwd=cwd, capture_output=True, text=True, check=check)\<close>.\<close>

definition subprocess_run_io ::
  "env \<Rightarrow> string option \<Rightarrow> string list \<Rightarrow> bool \<Rightarrow> (int \<times> string \<times> string) io" where
  "subprocess_run_io E cwd argv check w =
     (let w' = w\<lparr>invoked := invoked w @ [Subprocess cwd argv]\<rparr> in
      case subprocess_run E cwd argv of
        Raises e \<Rightarrow> (Inl e, w')
      | Completed rc out err \<Rightarrow>
          if check \<and> rc \<noteq> 0 then (Inl (CalledProcessError rc err), w')
          else (Inr (rc, out, err), w'))"

section \<open>The analytics object\<close>

record analytics =
  repo_path :: string
  start_date :: "string option"
  end_date :: "string option"

text \<open>Truth value of an optional string: \<^verbatim>\<open>None\<close> and the empty string are false.\<close>

definition truthy :: "string option \<Rightarrow> bool" where
  "truthy v = (case v of None \<Rightarrow> False | Some s \<Rightarrow> s \<noteq> [])"

definition build_date_filter :: "analytics \<Rightarrow> string list" where
  "build_date_filter self =
     (if truthy (start_date self) then [''--since'', the (start_date self)] else []) @
     (if truthy (end_date self) then [''--until'', the (end_date self)] else [])"

definition run_git_command :: "env \<Rightarrow> analytics \<Rightarrow> string list \<Rightarrow> string io" where
  "run_git_command E self command =
     io_catch
       (io_bind (subprocess_run_io E (Some (repo_path self)) (''git'' # command) True)
          (\<lambda>(rc, out, err). io_return (py_strip out)))
       (\<lambda>e. case e of
          CalledProcessError rc err \<Rightarrow>
            io_bind (py_print (''Git command failed: '' @ py_join '' '' command))
              (\<lambda>_. io_bind (py_print (''Error: '' @ err))
                (\<lambda>_. io_return []))
        | _ \<Rightarrow> io_raise e)"

text \<open>\<^verbatim>\<open>check_user_exists\<close>: \<^verbatim>\<open>bool(output)\<close> of a one-commit listing.\<close>

definition check_user_exists :: "env \<Rightarrow> analytics \<Rightarrow> string \<Rightarrow> bool io" where
  "check_user_exists E self username =
     io_bind
       (run_git_command E self
          ([''log'', ''--all'', ''--author'', username, ''--oneline'', ''-1''] @
           build_date_filter self))
       (\<lambda>output. io_return (output \<noteq> []))"

section \<open>Dictionaries and counters\<close>

text \<open>
  A Python \<^verbatim>\<open>dict\<close> keeps its keys in insertion order, so it is an association list with
  distinct keys. \<open>dict_set\<close> is \<^verbatim>\<open>d[k] = v\<close>: an existing key keeps its place.
\<close>

fun dict_set :: "'k \<Rightarrow> 'v \<Rightarrow> ('k \<times> 'v) list \<Rightarrow> ('k \<times> 'v) list" where
  "dict_set k v [] = [(k, v)]"
| "dict_set k v ((k', v') # d) = (if k' = k then (k, v) # d else (k', v') # dict_set k v d)"

definition dict_get :: "('k \<times> 'v) list \<Rightarrow> 'k \<Rightarrow> 'v \<Rightarrow> 'v" where
  "dict_get d k dflt = (case map_of d k of None \<Rightarrow> dflt | Some v \<Rightarrow> v)"

text \<open>\<^verbatim>\<open>dict(pairs)\<close>.\<close>

definition py_dict :: "('k \<times> 'v) list \<Rightarrow> ('k \<times> 'v) list" where
  "py_dict pairs = foldl (\<lambda>d (k, v). dict_set k v d) [] pairs"

text \<open>
  \<^verbatim>\<open>Counter(xs)\<close> counts in first-seen order; \<^verbatim>\<open>most_common()\<close> sorts the items by
  descending count with a stable sort, so equal counts stay in first-seen order.
\<close>

definition counter :: "'k list \<Rightarrow> ('k \<times> int) list" where
  "counter xs = foldl (\<lambda>d x. dict_set x (dict_get d x 0 + 1) d) [] xs"

definition most_common :: "('k \<times> int) list \<Rightarrow> ('k \<times> int) list" where
  "most_common items = sort_key (\<lambda>(k, c). - c) items"

section \<open>Commit statistics\<close>

record commit_stats =
  total_commits :: int
  unique_commits :: int
  recent_commits :: int
  first_commit :: "string option"
  last_commit :: "string option"
  commits_by_branch :: "(string \<times> int) list"
  commits_by_year :: "(string \<times> int) list"
  commits_by_day :: "(string \<times> int) list"
  commits_by_month :: "(string \<times> int) list"

definition NL :: string where
  "NL = [CHR 0x0A]"

definition TAB :: string where
  "TAB = [CHR 0x09]"

text \<open>\<^verbatim>\<open>len(output.split('\n')) if output else 0\<close>.\<close>

definition count_lines :: "string \<Rightarrow> int" where
  "count_lines output = (if output \<noteq> [] then int (length (py_split NL output)) else 0)"

text \<open>\<^verbatim>\<open>len(set(output.split('\n')) if output else set())\<close>.\<close>

definition count_unique :: "string \<Rightarrow> int" where
  "count_unique output =
     int (card (if output \<noteq> [] then set (py_split NL output) else {}))"

text \<open>
  The year tokens: \<^verbatim>\<open>[line.split('-')[0] for line in output.split('\n')
  if line and line != '0000']\<close>.
\<close>

definition year_tokens :: "string \<Rightarrow> string list" where
  "year_tokens output =
     map (\<lambda>line. hd (py_split ''-'' line))
       (filter (\<lambda>line. line \<noteq> [] \<and> line \<noteq> ''0000'') (py_split NL output))"

definition year_histogram :: "string \<Rightarrow> (string \<times> int) list" where
  "year_histogram output = py_dict (most_common (counter (year_tokens output)))"

text \<open>
  The weekday names: a line that \<^verbatim>\<open>strptime\<close> rejects (\<open>weekday_name\<close> gives \<open>None\<close>)
  is skipped.
\<close>

definition day_names :: "env \<Rightarrow> string \<Rightarrow> string list" where
  "day_names E output =
     concat (map (\<lambda>line. if line \<noteq> [] then (case weekday_name E line of
                                                   None \<Rightarrow> []
                                                 | Some d \<Rightarrow> [d])
                          else [])
               (py_split NL output))"

text \<open>
  The month keys: \<^verbatim>\<open>year, month = line.split('-')[:2]\<close> for the lines with at least two
  fields.
\<close>

definition month_keys :: "string \<Rightarrow> string list" where
  "month_keys output =
     map (\<lambda>line. (py_split ''-'' line ! 0) @ ''-'' @ (py_split ''-'' line ! 1))
       (filter (\<lambda>line. line \<noteq> [] \<and> length (py_split ''-'' line) \<ge> 2) (py_split NL output))"

text \<open>
  The loop over the remote branches. An exception of \<^verbatim>\<open>run_git_command\<close> leaves the loop
  with the entries stored so far; the caller prints the warning.
\<close>

fun branch_loop ::
  "env \<Rightarrow> analytics \<Rightarrow> string \<Rightarrow> string list \<Rightarrow> (string \<times> int) list \<Rightarrow>
   world \<Rightarrow> (py_exn option \<times> (string \<times> int) list) \<times> world" where
  "branch_loop E self username [] d w = ((None, d), w)"
| "branch_loop E self username (branch # rest) d w =
     (if py_strip branch \<noteq> []
      then (case run_git_command E self
                   ([''log'', ''--author'', username, py_strip branch, ''--oneline''] @
                    build_date_filter self) w of
              (Inl e, w') \<Rightarrow> ((Some e, d), w')
            | (Inr output, w') \<Rightarrow>
                branch_loop E self username rest
                  (if count_lines output > 0
                   then dict_set (py_replace ''origin/'' [] (py_strip branch)) (count_lines output) d
                   else d) w')
      else branch_loop E self username rest d w)"

text \<open>
  \<^verbatim>\<open>str(e)\<close> of an exception: its message. For \<^verbatim>\<open>CalledProcessError\<close> Python also names
  the command; the text below keeps the status only. \<^verbatim>\<open>run_git_command\<close> catches that class
  itself, so the handlers that print an exception do not receive one from it.
\<close>

fun exn_text :: "py_exn \<Rightarrow> string" where
  "exn_text (CalledProcessError rc err) =
     ''Command returned non-zero exit status '' @ py_str_int rc @ ''.''"
| "exn_text (FileNotFoundError m) = m"
| "exn_text (JSONDecodeError m) = m"
| "exn_text (TypeError m) = m"
| "exn_text (AttributeError m) = m"
| "exn_text (OtherError m) = m"

definition branch_stats ::
  "env \<Rightarrow> analytics \<Rightarrow> string \<Rightarrow> world \<Rightarrow> (string \<times> int) list \<times> world" where
  "branch_stats E self username w =
     (case run_git_command E self [''branch'', ''-r''] w of
        (Inl e, w') \<Rightarrow>
          ([], w'\<lparr>printed := printed w' @
                   [''Warning: Could not get branch statistics: '' @ exn_text e]\<rparr>)
      | (Inr branches_output, w') \<Rightarrow>
          if branches_output \<noteq> []
          then (case branch_loop E self username (py_split NL branches_output) [] w' of
                  ((None, d), w'') \<Rightarrow> (d, w'')
                | ((Some e, d), w'') \<Rightarrow>
                    (d, w''\<lparr>printed := printed w'' @
                          [''Warning: Could not get branch statistics: '' @ exn_text e]\<rparr>))
          else ([], w'))"

definition log_all :: "analytics \<Rightarrow> string \<Rightarrow> string list \<Rightarrow> string list" where
  "log_all self username opts =
     [''log'', ''--all'', ''--author'', username] @ opts @ build_date_filter self"

definition get_commit_stats :: "env \<Rightarrow> analytics \<Rightarrow> string \<Rightarrow> commit_stats io" where
  "get_commit_stats E self username =
     io_bind (run_git_command E self (log_all self username [''--oneline''])) (\<lambda>out_total.
     io_bind (run_git_command E self (log_all self username [''--pretty=format:%H''])) (\<lambda>out_hashes.
     io_bind (run_git_command E self
                (log_all self username [''--since=30 days ago'', ''--oneline''])) (\<lambda>out_recent.
     io_bind (run_git_command E self
                (log_all self username [''--pretty=format:%ad'', ''--date=short''])) (\<lambda>out_dates.
     io_bind (run_git_command E self
                (log_all self username [''--pretty=format:%ad'', ''--date=short''])) (\<lambda>out_years.
     io_bind (run_git_command E self (log_all self username [''--pretty=format:%aD''])) (\<lambda>out_days.
     io_bind (run_git_command E self
                (log_all self username [''--pretty=format:%ad'', ''--date=short''])) (\<lambda>out_months.
     (\<lambda>w. case branch_stats E self username w of
        (by_branch, w') \<Rightarrow>
          (Inr \<lparr>total_commits = count_lines out_total,
                unique_commits = count_unique out_hashes,
                recent_commits = count_lines out_recent,
                first_commit =
                  (if out_dates \<noteq> [] then Some (last (py_split NL out_dates)) else None),
                last_commit =
                  (if out_dates \<noteq> [] then Some (hd (py_split NL out_dates)) else None),
                commits_by_branch = by_branch,
                commits_by_year =
                  (if out_years \<noteq> [] then year_histogram out_years else []),
                commits_by_day =
                  (if out_days \<noteq> []
                   then py_dict (most_common (counter (day_names E out_days))) else []),
                commits_by_month =
                  (if out_months \<noteq> []
                   then py_dict (most_common (counter (month_keys out_months))) else [])\<rparr>,
           w')))))))))"

definition calculate_activity_score :: "commit_stats \<Rightarrow> int" where
  "calculate_activity_score stats = total_commits stats * 10 + recent_commits stats * 50"

section \<open>Paths\<close>

text \<open>\<^verbatim>\<open>os.path.dirname\<close>, \<^verbatim>\<open>os.path.join\<close> (two components), \<^verbatim>\<open>os.path.basename\<close> and the
  extension part of \<^verbatim>\<open>os.path.splitext\<close>, as \<^verbatim>\<open>posixpath\<close> defines them.\<close>

definition os_dirname :: "string \<Rightarrow> string" where
  "os_dirname p =
     (let head = rev (dropWhile (\<lambda>c. c \<noteq> CHR ''/'') (rev p)) in
      if head \<noteq> [] \<and> head \<noteq> replicate (length head) (CHR ''/'')
      then rev (dropWhile (\<lambda>c. c = CHR ''/'') (rev head))
      else head)"

definition os_join :: "string \<Rightarrow> string \<Rightarrow> string" where
  "os_join a b =
     (if prefix ''/'' b then b
      else if a = [] \<or> last a = CHR ''/'' then a @ b
      else a @ ''/'' @ b)"

definition os_basename :: "string \<Rightarrow> string" where
  "os_basename p = rev (takeWhile (\<lambda>c. c \<noteq> CHR ''/'') (rev p))"

definition os_splitext_ext :: "string \<Rightarrow> string" where
  "os_splitext_ext p =
     (let base = os_basename p;
          after_dot = rev (takeWhile (\<lambda>c. c \<noteq> CHR ''.'') (rev base));
          before_dot = take (length base - length after_dot - 1) base
      in if CHR ''.'' \<in> set base \<and> list_ex (\<lambda>c. c \<noteq> CHR ''.'') before_dot
         then CHR ''.'' # after_dot
         else [])"

lemma rev_dropWhile_rev_prefix: "prefix (rev (dropWhile P (rev xs))) xs"
proof -
  have "rev (dropWhile P (rev xs)) @ rev (takeWhile P (rev xs)) =
        rev (takeWhile P (rev xs) @ dropWhile P (rev xs))"
    by (simp only: rev_append)
  also have "\<dots> = xs"
    by (simp only: takeWhile_dropWhile_id rev_rev_ident)
  finally show ?thesis
    by (metis prefixI)
qed

lemma os_dirname_prefix: "prefix (os_dirname p) p"
proof -
  define head where "head = rev (dropWhile (\<lambda>c. c \<noteq> CHR ''/'') (rev p))"
  have head: "prefix head p"
    unfolding head_def by (rule rev_dropWhile_rev_prefix)
  have "prefix (rev (dropWhile (\<lambda>c. c = CHR ''/'') (rev head))) head"
    by (rule rev_dropWhile_rev_prefix)
  from this head have "prefix (rev (dropWhile (\<lambda>c. c = CHR ''/'') (rev head))) p"
    by (rule prefix_order.trans)
  with head show ?thesis
    unfolding os_dirname_def head_def [symmetric] Let_def by simp
qed

lemma os_dirname_shorter: "p \<noteq> os_dirname p \<Longrightarrow> length (os_dirname p) < length p"
  using os_dirname_prefix [of p] by (simp add: prefix_length_less strict_prefix_def)

section \<open>Locating the repository\<close>

text \<open>
  The loop of \<^verbatim>\<open>validate_repo\<close>'s handler: from \<open>current_dir\<close> upwards, until a directory
  is its own parent.
\<close>

function find_repo_root :: "env \<Rightarrow> analytics \<Rightarrow> string \<Rightarrow> (bool \<times> analytics) io" where
  "find_repo_root E self current_dir w =
     (if current_dir \<noteq> os_dirname current_dir
      then (if path_isdir E (process_cwd E) (os_join current_dir ''.git'')
            then (Inr (True, self\<lparr>repo_path := current_dir\<rparr>),
                  w\<lparr>printed := printed w @
                      [''Warning: Navigating to Git repository root: '' @ current_dir]\<rparr>)
            else find_repo_root E self (os_dirname current_dir) w)
      else (Inr (False, self), w))"
  by pat_completeness auto
termination
  by (relation "measure (\<lambda>(E, self, current_dir, w). length current_dir)")
    (auto simp: os_dirname_shorter)

declare find_repo_root.simps [simp del]

text \<open>
  \<^verbatim>\<open>validate_repo\<close>: the probe, and the handler for \<^verbatim>\<open>CalledProcessError\<close>. The second
  component of the result is the object after the call (\<^verbatim>\<open>self.repo_path\<close> may be set).
\<close>

definition validate_repo :: "env \<Rightarrow> analytics \<Rightarrow> (bool \<times> analytics) io" where
  "validate_repo E self =
     io_catch
       (io_bind (run_git_command E self [''rev-parse'', ''--git-dir''])
          (\<lambda>_. io_return (True, self)))
       (\<lambda>e. case e of
          CalledProcessError rc err \<Rightarrow> find_repo_root E self (os_abspath E (repo_path self))
        | _ \<Rightarrow> io_raise e)"

section \<open>Lines of code\<close>

record loc_stats =
  files_modified :: int
  total_loc :: int
  lines_added :: int
  lines_deleted :: int
  net_lines :: int
  files_by_extension :: "(string \<times> int) list"
  largest_files :: "(string \<times> int) list"

text \<open>
  The set of touched files, as the list of its distinct elements:
  \<^verbatim>\<open>{f for f in (set(output.split('\n')) if output else set()) if f.strip()}\<close>.
\<close>

definition touched_files :: "string \<Rightarrow> string list" where
  "touched_files output =
     filter (\<lambda>f. py_strip f \<noteq> [])
       (remdups (if output \<noteq> [] then py_split NL output else []))"

text \<open>
  The loop over the touched files. \<^verbatim>\<open>os.path.isfile(file_path)\<close> and \<^verbatim>\<open>open(file_path)\<close>
  are given the path as the listing printed it, so the operating system resolves it
  against the working directory of the process. The state is \<^verbatim>\<open>stats['total_loc']\<close>,
  \<^verbatim>\<open>file_sizes\<close> and \<^verbatim>\<open>ext_counts\<close>; an exception while opening or reading skips the
  file.
\<close>

fun loc_loop ::
  "env \<Rightarrow> string list \<Rightarrow> int \<times> (string \<times> int) list \<times> (string \<times> int) list \<Rightarrow>
   int \<times> (string \<times> int) list \<times> (string \<times> int) list" where
  "loc_loop E [] acc = acc"
| "loc_loop E (file_path # rest) (loc, file_sizes, ext_counts) =
     (if path_isfile E (process_cwd E) file_path
      then (case open_readlines E (process_cwd E) file_path of
              Inl e \<Rightarrow> loc_loop E rest (loc, file_sizes, ext_counts)
            | Inr ls \<Rightarrow>
                loc_loop E rest
                  (loc + int (length ls),
                   file_sizes @ [(file_path, int (length ls))],
                   dict_set (os_splitext_ext file_path)
                     (dict_get ext_counts (os_splitext_ext file_path) 0 + int (length ls))
                     ext_counts))
      else loc_loop E rest (loc, file_sizes, ext_counts))"

text \<open>
  \<^verbatim>\<open>int(s)\<close> for a string: surrounding whitespace, an optional sign, then decimal digits
  (the ASCII digits) in which single underscores may separate digits. \<open>None\<close> is
  \<^verbatim>\<open>ValueError\<close>.
\<close>

definition is_digit :: "char \<Rightarrow> bool" where
  "is_digit c = (CHR ''0'' \<le> c \<and> c \<le> CHR ''9'')"

fun digit_groups :: "string \<Rightarrow> bool" where
  "digit_groups [] = False"
| "digit_groups [c] = is_digit c"
| "digit_groups (c # d # r) =
     (is_digit c \<and> (if d = CHR ''_'' then digit_groups r else digit_groups (d # r)))"

definition nat_of_digits :: "string \<Rightarrow> nat" where
  "nat_of_digits ds = foldl (\<lambda>n c. 10 * n + (of_char c - 48)) 0 ds"

definition py_int :: "string \<Rightarrow> int option" where
  "py_int s =
     (let t = py_strip s;
          neg = (t \<noteq> [] \<and> hd t = CHR ''-'');
          body = (if t \<noteq> [] \<and> (hd t = CHR ''-'' \<or> hd t = CHR ''+'') then tl t else t)
      in if digit_groups body
         then Some ((if neg then - 1 else 1) *
                    int (nat_of_digits (filter (\<lambda>c. c \<noteq> CHR ''_'') body)))
         else None)"

text \<open>\<^verbatim>\<open>int(field) if field != '-' else 0\<close>.\<close>

definition numstat_field :: "string \<Rightarrow> int option" where
  "numstat_field field = (if field \<noteq> ''-'' then py_int field else Some 0)"

text \<open>
  The loop over the numstat lines; the state is \<^verbatim>\<open>(total_additions, total_deletions)\<close>.
  Both fields are converted before either total is changed.
\<close>

fun numstat_loop :: "string list \<Rightarrow> int \<times> int \<Rightarrow> int \<times> int" where
  "numstat_loop [] acc = acc"
| "numstat_loop (line # rest) (total_additions, total_deletions) =
     (if py_strip line \<noteq> [] \<and> length (py_split TAB line) \<ge> 2
      then (case numstat_field (py_split TAB line ! 0) of
              None \<Rightarrow> numstat_loop rest (total_additions, total_deletions)
            | Some additions \<Rightarrow>
                (case numstat_field (py_split TAB line ! 1) of
                   None \<Rightarrow> numstat_loop rest (total_additions, total_deletions)
                 | Some deletions \<Rightarrow>
                     numstat_loop rest
                       (total_additions + additions, total_deletions + deletions)))
      else numstat_loop rest (total_additions, total_deletions))"

definition get_lines_of_code :: "env \<Rightarrow> analytics \<Rightarrow> string \<Rightarrow> loc_stats io" where
  "get_lines_of_code E self username =
     io_bind (run_git_command E self
                (log_all self username [''--name-only'', ''--pretty=format:''])) (\<lambda>out_files.
     io_bind (run_git_command E self
                (log_all self username [''--pretty=tformat:'', ''--numstat''])) (\<lambda>out_numstat.
       (case loc_loop E (set_iteration E (touched_files out_files)) (0, [], []) of
          (loc, file_sizes, ext_counts) \<Rightarrow>
            (case numstat_loop (py_split NL out_numstat) (0, 0) of
               (total_additions, total_deletions) \<Rightarrow>
                 io_return
                   \<lparr>files_modified = int (length (touched_files out_files)),
                    total_loc = loc,
                    lines_added = total_additions,
                    lines_deleted = total_deletions,
                    net_lines = total_additions - total_deletions,
                    files_by_extension = ext_counts,
                    largest_files = take 10 (sort_key (\<lambda>(path, n). - n) file_sizes)\<rparr>))))"

section \<open>Pull requests\<close>

record pr_stats =
  pull_requests :: json
  source_tag :: string

text \<open>\<^verbatim>\<open>len(data)\<close> of a decoded JSON value: numbers, booleans and \<^verbatim>\<open>None\<close> have no length.\<close>

definition py_len :: "json \<Rightarrow> py_exn + int" where
  "py_len data =
     (case data of
        JArr xs \<Rightarrow> Inr (int (length xs))
      | JObj kvs \<Rightarrow> Inr (int (length kvs))
      | JStr s \<Rightarrow> Inr (int (length s))
      | _ \<Rightarrow> Inl (TypeError ''object has no len()''))"

text \<open>\<^verbatim>\<open>json.loads(text)\<close>, raising \<^verbatim>\<open>JSONDecodeError\<close> on text that does not parse.\<close>

definition json_loads_io :: "env \<Rightarrow> string \<Rightarrow> json io" where
  "json_loads_io E s =
     (case json_loads E s of
        None \<Rightarrow> io_raise (JSONDecodeError ''Expecting value'')
      | Some data \<Rightarrow> io_return data)"

definition len_io :: "json \<Rightarrow> int io" where
  "len_io data = (case py_len data of Inl e \<Rightarrow> io_raise e | Inr n \<Rightarrow> io_return n)"

text \<open>
  \<^verbatim>\<open>except (subprocess.CalledProcessError, json.JSONDecodeError, FileNotFoundError): pass\<close>:
  the three classes fall through to the next source, every other exception propagates.
  The result \<open>None\<close> of a stage means that the next one is tried.
\<close>

definition cli_except :: "py_exn \<Rightarrow> (pr_stats option) io" where
  "cli_except e =
     (case e of
        CalledProcessError rc err \<Rightarrow> io_return None
      | JSONDecodeError m \<Rightarrow> io_return None
      | FileNotFoundError m \<Rightarrow> io_return None
      | _ \<Rightarrow> io_raise e)"

definition try_github_cli :: "env \<Rightarrow> string \<Rightarrow> (pr_stats option) io" where
  "try_github_cli E username =
     io_catch
       (io_bind (subprocess_run_io E None [''gh'', ''auth'', ''status''] False)
          (\<lambda>(rc, out, err).
             if rc = 0
             then io_bind
                    (subprocess_run_io E None
                       [''gh'', ''pr'', ''list'', ''--author'', username, ''--json'', ''number'']
                       True)
                    (\<lambda>(rc', out', err').
                       io_bind (json_loads_io E out') (\<lambda>data.
                       io_bind (len_io data) (\<lambda>n.
                         io_return (Some \<lparr>pull_requests = JInt n, source_tag = ''github_cli''\<rparr>))))
             else io_bind
                    (py_print (''GitHub CLI not authenticated. Run '' @ [CHR 0x27] @
                               ''gh auth login'' @ [CHR 0x27] @ '' to authenticate.''))
                    (\<lambda>_. io_return None)))
       cli_except"

definition try_gitlab_cli :: "env \<Rightarrow> string \<Rightarrow> (pr_stats option) io" where
  "try_gitlab_cli E username =
     io_catch
       (io_bind
          (subprocess_run_io E None
             [''glab'', ''mr'', ''list'', ''--author'', username, ''--json'', ''id''] True)
          (\<lambda>(rc, out, err).
             io_bind (json_loads_io E out) (\<lambda>data.
             io_bind (len_io data) (\<lambda>n.
               io_return (Some \<lparr>pull_requests = JInt n, source_tag = ''gitlab_cli''\<rparr>)))))
       cli_except"

definition http_get_io ::
  "env \<Rightarrow> string \<Rightarrow> (string \<times> string) list \<Rightarrow> (int \<times> (py_exn + json)) io" where
  "http_get_io E url headers w =
     (let w' = w\<lparr>invoked := invoked w @ [HttpGet url headers]\<rparr> in
      case http_get E url headers of
        HttpRaises e \<Rightarrow> (Inl e, w')
      | HttpResponse status body \<Rightarrow> (Inr (status, body), w'))"

text \<open>\<^verbatim>\<open>data.get('total_count', 0)\<close>: only a JSON object has \<^verbatim>\<open>get\<close>.\<close>

definition total_count_io :: "json \<Rightarrow> json io" where
  "total_count_io data =
     (case data of
        JObj kvs \<Rightarrow> io_return (dict_get kvs ''total_count'' (JInt 0))
      | _ \<Rightarrow> io_raise (AttributeError ''object has no attribute get''))"

text \<open>The local variables \<^verbatim>\<open>url\<close> and \<^verbatim>\<open>headers\<close> of the third stage.\<close>

definition search_url :: "string \<Rightarrow> string \<Rightarrow> string" where
  "search_url username remote_url =
     ''https://api.github.com/search/issues?q=author:'' @ username @ ''+repo:'' @
     py_replace ''.git'' [] (last (py_split ''github.com/'' remote_url)) @ ''+is:pr''"

definition auth_headers :: "env \<Rightarrow> (string \<times> string) list" where
  "auth_headers E =
     (if truthy (environ_get E ''GITHUB_TOKEN'')
      then [(''Authorization'', ''token '' @ the (environ_get E ''GITHUB_TOKEN''))]
      else [])"

definition try_github_api :: "env \<Rightarrow> analytics \<Rightarrow> string \<Rightarrow> (pr_stats option) io" where
  "try_github_api E self username =
     io_catch
       (io_bind (run_git_command E self [''config'', ''--get'', ''remote.origin.url''])
          (\<lambda>remote_url.
             if py_contains ''github.com'' remote_url
             then io_bind
                    (http_get_io E (search_url username remote_url) (auth_headers E))
                    (\<lambda>(status, body).
                       if status = 200
                       then (case body of
                               Inl e \<Rightarrow> io_raise e
                             | Inr data \<Rightarrow>
                                 io_bind (total_count_io data) (\<lambda>n.
                                   io_return
                                     (Some \<lparr>pull_requests = n, source_tag = ''github_api''\<rparr>)))
                       else if status = 401
                       then io_bind
                              (py_print (''GitHub API authentication failed. '' @
                                         ''Set GITHUB_TOKEN environment variable.''))
                              (\<lambda>_. io_return None)
                       else if status = 403
                       then io_bind
                              (py_print (''GitHub API rate limit exceeded or '' @
                                         ''insufficient permissions.''))
                              (\<lambda>_. io_return None)
                       else io_return None)
             else io_return None))
       (\<lambda>e. io_bind (py_print (''GitHub API error: '' @ exn_text e)) (\<lambda>_. io_return None))"

definition get_pull_requests :: "env \<Rightarrow> analytics \<Rightarrow> string \<Rightarrow> pr_stats io" where
  "get_pull_requests E self username =
     io_bind (try_github_cli E username) (\<lambda>r1.
       case r1 of
         Some stats \<Rightarrow> io_return stats
       | None \<Rightarrow>
           io_bind (try_gitlab_cli E username) (\<lambda>r2.
             case r2 of
               Some stats \<Rightarrow> io_return stats
             | None \<Rightarrow>
                 io_bind (try_github_api E self username) (\<lambda>r3.
                   case r3 of
                     Some stats \<Rightarrow> io_return stats
                   | None \<Rightarrow> io_return \<lparr>pull_requests = JInt 0, source_tag = ''unknown''\<rparr>)))"

section \<open>Reports\<close>

text \<open>\<^verbatim>\<open>f"{v}"\<close> for a value that came out of JSON; containers are left to \<open>py_repr\<close>.\<close>

definition fmt_json :: "env \<Rightarrow> json \<Rightarrow> string" where
  "fmt_json E v =
     (case v of
        JInt n \<Rightarrow> py_str_int n
      | JStr s \<Rightarrow> s
      | JNull \<Rightarrow> ''None''
      | JBool b \<Rightarrow> (if b then ''True'' else ''False'')
      | _ \<Rightarrow> py_repr E v)"

definition banner :: string where
  "banner = replicate 50 (CHR ''='')"

definition header_section :: "env \<Rightarrow> analytics \<Rightarrow> string \<Rightarrow> string list" where
  "header_section E self username =
     [banner, ''Git Analytics Report'', banner,
      ''User: '' @ username,
      ''Repository: '' @ os_basename (os_abspath E (repo_path self)),
      ''Generated: '' @ now_strftime E] @
     (if truthy (start_date self) \<or> truthy (end_date self)
      then [''Date Range: '' @
            py_join '' ''
              ((if truthy (start_date self) then [''from '' @ the (start_date self)] else []) @
               (if truthy (end_date self) then [''until '' @ the (end_date self)] else []))]
      else []) @
     [[]]"

definition quick_stats_section :: "commit_stats \<Rightarrow> int \<Rightarrow> string list" where
  "quick_stats_section cs activity_score =
     [[CHR 0xF0, CHR 0x9F, CHR 0x93, CHR 0x8A] @ '' Quick Stats:'',
      ''  Total Commits: '' @ py_str_int (total_commits cs),
      ''  Unique Commits: '' @ py_str_int (unique_commits cs),
      ''  Recent Activity (30 days): '' @ py_str_int (recent_commits cs),
      ''  Activity Score: '' @ py_str_int activity_score,
      []]"

definition pull_requests_section :: "env \<Rightarrow> pr_stats \<Rightarrow> string list" where
  "pull_requests_section E ps =
     [[CHR 0xF0, CHR 0x9F, CHR 0x94, CHR 0x80] @ '' Pull Requests:'',
      ''  Count: '' @ fmt_json E (pull_requests ps),
      ''  Source: '' @ source_tag ps,
      []]"

definition loc_section :: "loc_stats \<Rightarrow> string list" where
  "loc_section ls =
     [[CHR 0xF0, CHR 0x9F, CHR 0x93, CHR 0x9D] @ '' Lines of Code:'',
      ''  Files Modified: '' @ py_str_int (files_modified ls),
      ''  Total LOC: '' @ py_str_int (total_loc ls),
      ''  Lines Added: '' @ py_str_int (lines_added ls),
      ''  Lines Deleted: '' @ py_str_int (lines_deleted ls),
      ''  Net Lines: '' @ py_str_int (net_lines ls),
      []]"

definition extensions_section :: "loc_stats \<Rightarrow> string list" where
  "extensions_section ls =
     (if files_by_extension ls \<noteq> []
      then [[CHR 0xF0, CHR 0x9F, CHR 0x93, CHR 0x81] @ '' Top File Extensions:''] @
           map (\<lambda>(ext, n). ''  '' @ ext @ '': '' @ py_str_int n @ '' lines'')
             (take 5 (sort_key (\<lambda>(ext, n). - n) (files_by_extension ls))) @
           [[]]
      else [])"

definition timeline_section :: "commit_stats \<Rightarrow> string list" where
  "timeline_section cs =
     (if truthy (first_commit cs) \<and> truthy (last_commit cs)
      then [[CHR 0xF0, CHR 0x9F, CHR 0x93, CHR 0x85] @ '' Timeline:'',
            ''  First Commit: '' @ the (first_commit cs),
            ''  Last Commit: '' @ the (last_commit cs),
            []]
      else [])"

text \<open>
  The years as the text report lists them: \<^verbatim>\<open>sorted(commit_stats['commits_by_year'].items())\<close>,
  the (year, count) pairs in ascending order, strings compared character by character.
\<close>

definition rendered_years :: "commit_stats \<Rightarrow> (string \<times> int) list" where
  "rendered_years cs = sort (commits_by_year cs)"

definition year_section :: "commit_stats \<Rightarrow> string list" where
  "year_section cs =
     (if commits_by_year cs \<noteq> []
      then [[CHR 0xF0, CHR 0x9F, CHR 0x93, CHR 0x88] @ '' Commits by Year:''] @
           map (\<lambda>(year, n). ''  '' @ year @ '': '' @ py_str_int n @ '' commits'')
             (rendered_years cs) @
           [[]]
      else [])"

text \<open>\<^verbatim>\<open>max(items, key=lambda x: x[1])\<close>: the first item with the greatest count.\<close>

fun max_by_count :: "(string \<times> int) \<Rightarrow> (string \<times> int) list \<Rightarrow> (string \<times> int)" where
  "max_by_count best [] = best"
| "max_by_count best (x # xs) = max_by_count (if snd x > snd best then x else best) xs"

definition day_section :: "commit_stats \<Rightarrow> string list" where
  "day_section cs =
     (case commits_by_day cs of
        [] \<Rightarrow> []
      | x # xs \<Rightarrow>
          [[CHR 0xF0, CHR 0x9F, CHR 0x97, CHR 0x93, CHR 0xEF, CHR 0xB8, CHR 0x8F] @
             ''  Most Active Day:'',
           ''  '' @ fst (max_by_count x xs) @ '': '' @ py_str_int (snd (max_by_count x xs)) @
             '' commits'',
           []])"

definition generate_text_report ::
  "env \<Rightarrow> analytics \<Rightarrow> string \<Rightarrow> commit_stats \<Rightarrow> loc_stats \<Rightarrow> pr_stats \<Rightarrow> int \<Rightarrow> string" where
  "generate_text_report E self username cs ls ps activity_score =
     py_join NL
       (header_section E self username @
        quick_stats_section cs activity_score @
        pull_requests_section E ps @
        loc_section ls @
        extensions_section ls @
        timeline_section cs @
        year_section cs @
        day_section cs @
        [banner, ''Report Complete'', banner])"

text \<open>The structured report: the dictionary handed to \<^verbatim>\<open>json.dumps(report, indent=2)\<close>.\<close>

definition json_opt_str :: "string option \<Rightarrow> json" where
  "json_opt_str v = (case v of None \<Rightarrow> JNull | Some s \<Rightarrow> JStr s)"

definition json_counts :: "(string \<times> int) list \<Rightarrow> json" where
  "json_counts d = JObj (map (\<lambda>(k, n). (k, JInt n)) d)"

definition commit_stats_json :: "commit_stats \<Rightarrow> json" where
  "commit_stats_json cs =
     JObj [(''total_commits'', JInt (total_commits cs)),
           (''unique_commits'', JInt (unique_commits cs)),
           (''recent_commits'', JInt (recent_commits cs)),
           (''first_commit'', json_opt_str (first_commit cs)),
           (''last_commit'', json_opt_str (last_commit cs)),
           (''commits_by_branch'', json_counts (commits_by_branch cs)),
           (''commits_by_year'', json_counts (commits_by_year cs)),
           (''commits_by_day'', json_counts (commits_by_day cs)),
           (''commits_by_month'', json_counts (commits_by_month cs))]"

definition loc_stats_json :: "loc_stats \<Rightarrow> json" where
  "loc_stats_json ls =
     JObj [(''files_modified'', JInt (files_modified ls)),
           (''total_loc'', JInt (total_loc ls)),
           (''lines_added'', JInt (lines_added ls)),
           (''lines_deleted'', JInt (lines_deleted ls)),
           (''net_lines'', JInt (net_lines ls)),
           (''files_by_extension'', json_counts (files_by_extension ls)),
           (''largest_files'',
            JArr (map (\<lambda>(path, n). JArr [JStr path, JInt n]) (largest_files ls)))]"

definition report_json ::
  "env \<Rightarrow> analytics \<Rightarrow> string \<Rightarrow> commit_stats \<Rightarrow> loc_stats \<Rightarrow> pr_stats \<Rightarrow> int \<Rightarrow> json" where
  "report_json E self username cs ls ps activity_score =
     JObj ([(''user'', JStr username),
            (''repository'', JStr (os_basename (os_abspath E (repo_path self)))),
            (''generated'', JStr (now_isoformat E)),
            (''activity_score'', JInt activity_score),
            (''commit_stats'', commit_stats_json cs),
            (''lines_of_code'', loc_stats_json ls),
            (''pull_requests'',
             JObj [(''pull_requests'', pull_requests ps), (''source'', JStr (source_tag ps))])] @
           (if truthy (start_date self) \<or> truthy (end_date self)
            then [(''date_filter'',
                   JObj [(''start_date'', json_opt_str (start_date self)),
                         (''end_date'', json_opt_str (end_date self))])]
            else []))"

definition generate_json_report ::
  "env \<Rightarrow> analytics \<Rightarrow> string \<Rightarrow> commit_stats \<Rightarrow> loc_stats \<Rightarrow> pr_stats \<Rightarrow> int \<Rightarrow> string" where
  "generate_json_report E self username cs ls ps activity_score =
     json_dumps E (report_json E self username cs ls ps activity_score)"

definition generate_report :: "env \<Rightarrow> analytics \<Rightarrow> string \<Rightarrow> string \<Rightarrow> string io" where
  "generate_report E self username output_format =
     io_bind (validate_repo E self) (\<lambda>(ok, self').
       if \<not> ok then io_return ''Error: Not a Git repository''
       else
     io_bind (check_user_exists E self' username) (\<lambda>found.
       if \<not> found
       then io_return (''Error: No commits found for user '' @ [CHR 0x27] @ username @ [CHR 0x27])
       else
     io_bind (get_commit_stats E self' username) (\<lambda>cs.
     io_bind (get_lines_of_code E self' username) (\<lambda>ls.
     io_bind (get_pull_requests E self' username) (\<lambda>ps.
       if output_format = ''json''
       then io_return
              (generate_json_report E self' username cs ls ps (calculate_activity_score cs))
       else io_return
              (generate_text_report E self' username cs ls ps (calculate_activity_score cs)))))))"

section \<open>Example environments\<close>

text \<open>
  An environment in which nothing is installed and nothing exists; the examples below
  override the parts they use.
\<close>

definition null_env :: env where
  "null_env =
     \<lparr>subprocess_run = (\<lambda>_ _. Raises (FileNotFoundError [])),
      process_cwd = ''/'',
      os_abspath = (\<lambda>p. p),
      path_isdir = (\<lambda>_ _. False),
      path_isfile = (\<lambda>_ _. False),
      open_readlines = (\<lambda>_ _. Inl (FileNotFoundError [])),
      set_iteration = (\<lambda>xs. xs),
      weekday_name = (\<lambda>_. None),
      json_loads = (\<lambda>_. None),
      json_dumps = (\<lambda>_. []),
      py_repr = (\<lambda>_. []),
      http_get = (\<lambda>_ _. HttpRaises (OtherError [])),
      environ_get = (\<lambda>_. None),
      now_strftime = [],
      now_isoformat = []\<rparr>"

definition fresh_world :: world where
  "fresh_world = \<lparr>printed = [], invoked = []\<rparr>"

definition here :: analytics where
  "here = \<lparr>repo_path = ''.'', start_date = None, end_date = None\<rparr>"

section \<open>The numstat totals, in the words of the specification\<close>

text \<open>
  What \<^verbatim>\<open>run_git_command\<close> returns for a command; it does not depend on what was printed
  or started before.
\<close>

definition git_output :: "env \<Rightarrow> analytics \<Rightarrow> string list \<Rightarrow> py_exn + string" where
  "git_output E self command = fst (run_git_command E self command fresh_world)"

text \<open>
  The numstat totals as the specification words them. A count field is the binary marker
  \<^verbatim>\<open>-\<close>, which counts zero, or an integer. A line is well formed when it is not blank
  and its first two tab-separated fields are count fields; every other line is malformed
  and contributes nothing. The two totals are separate sums over the lines.
\<close>

definition spec_numstat_count :: "string \<Rightarrow> int option" where
  "spec_numstat_count field = (if field = ''-'' then Some 0 else py_int field)"

definition spec_numstat_line :: "string \<Rightarrow> (int \<times> int) option" where
  "spec_numstat_line line =
     (if py_strip line = [] then None
      else (case py_split TAB line of
              added # deleted # path \<Rightarrow>
                (case (spec_numstat_count added, spec_numstat_count deleted) of
                   (Some a, Some d) \<Rightarrow> Some (a, d)
                 | _ \<Rightarrow> None)
            | _ \<Rightarrow> None))"

definition spec_lines_added :: "string list \<Rightarrow> int" where
  "spec_lines_added ls =
     sum_list (map (\<lambda>line. case spec_numstat_line line of None \<Rightarrow> 0 | Some (a, d) \<Rightarrow> a) ls)"

definition spec_lines_deleted :: "string list \<Rightarrow> int" where
  "spec_lines_deleted ls =
     sum_list (map (\<lambda>line. case spec_numstat_line line of None \<Rightarrow> 0 | Some (a, d) \<Rightarrow> d) ls)"

text \<open>
  A repository whose numstat listing is \<open>listing\<close> and whose other listings are empty.
\<close>

definition numstat_env :: "string \<Rightarrow> env" where
  "numstat_env listing =
     null_env\<lparr>subprocess_run := \<lambda>cwd argv.
        if ''--numstat'' \<in> set argv then Completed 0 listing [] else Completed 0 [] []\<rparr>"

definition readme_and_image :: string where
  "readme_and_image =
     ''3'' @ TAB @ ''1'' @ TAB @ ''README.md'' @ NL @ ''-'' @ TAB @ ''-'' @ TAB @ ''image.png''"

section \<open>Repositories of the examples\<close>

text \<open>
  A checkout, analysed from its root: the author touched four paths, of which
  \<^verbatim>\<open>gone.py\<close> no longer exists and \<^verbatim>\<open>README\<close> cannot be read.
\<close>

definition checkout_env :: env where
  "checkout_env =
     null_env\<lparr>subprocess_run := \<lambda>cwd argv.
        if ''--name-only'' \<in> set argv
        then Completed 0 (''a.py'' @ NL @ NL @ ''README'' @ NL @ ''b.py'' @ NL @ ''gone.py'') []
        else Completed 0 [] [],
      path_isfile := \<lambda>d p. p \<in> {''a.py'', ''README'', ''b.py''},
      open_readlines := \<lambda>d p.
        if p = ''a.py'' then Inr [''x'', ''y'']
        else if p = ''b.py'' then Inr [''z'']
        else Inl (OtherError ''permission denied'')\<rparr>"

text \<open>
  The tool started in \<^verbatim>\<open>/home/u\<close> with \<^verbatim>\<open>--repo /srv/repo\<close>: the repository holds
  \<^verbatim>\<open>a.py\<close> with three lines, and \<^verbatim>\<open>/home/u\<close> holds no such file.
\<close>

definition elsewhere_env :: env where
  "elsewhere_env =
     null_env\<lparr>process_cwd := ''/home/u'',
       subprocess_run := \<lambda>cwd argv.
         if cwd = Some ''/srv/repo'' \<and> ''--name-only'' \<in> set argv then Completed 0 ''a.py'' []
         else Completed 0 [] [],
       path_isfile := \<lambda>d p. d = ''/srv/repo'' \<and> p = ''a.py'',
       open_readlines := \<lambda>d p.
         if d = ''/srv/repo'' \<and> p = ''a.py'' then Inr [''x'', ''y'', ''z'']
         else Inl (FileNotFoundError ''No such file or directory'')\<rparr>"

text \<open>
  The tool started in \<^verbatim>\<open>/work/proj/src\<close>, a subdirectory of the checkout
  \<^verbatim>\<open>/work/proj\<close>, where the probe \<^verbatim>\<open>git rev-parse --git-dir\<close> exits with status 128.
\<close>

definition subdir_env :: env where
  "subdir_env =
     null_env\<lparr>process_cwd := ''/work/proj/src'',
       os_abspath := \<lambda>p. if p = ''.'' then ''/work/proj/src'' else p,
       subprocess_run := \<lambda>cwd argv. Completed 128 [] ''fatal: not a git repository'',
       path_isdir := \<lambda>d p. p = ''/work/proj/.git''\<rparr>"

text \<open>The tool started in \<^verbatim>\<open>/tmp/scratch\<close>, where no ancestor is a checkout.\<close>

definition outside_env :: env where
  "outside_env =
     null_env\<lparr>process_cwd := ''/tmp/scratch'',
       os_abspath := \<lambda>p. if p = ''.'' then ''/tmp/scratch'' else p,
       subprocess_run := \<lambda>cwd argv. Completed 128 [] ''fatal: not a git repository''\<rparr>"

text \<open>The statistics of an author without commits.\<close>

definition no_commits :: commit_stats where
  "no_commits =
     \<lparr>total_commits = 0, unique_commits = 0, recent_commits = 0, first_commit = None,
      last_commit = None, commits_by_branch = [], commits_by_year = [], commits_by_day = [],
      commits_by_month = []\<rparr>"

text \<open>
  A repository with one commit by the author, no remote, and neither hosting CLI installed.
\<close>

definition small_repo :: env where
  "small_repo =
     null_env\<lparr>subprocess_run := \<lambda>cwd argv.
        if hd argv \<noteq> ''git'' then Raises (FileNotFoundError ''No such file or directory'')
        else if ''--date=short'' \<in> set argv then Completed 0 ''2024-03-01'' []
        else if ''--oneline'' \<in> set argv then Completed 0 (''a1b2c3d first'' @ NL) []
        else if ''--pretty=format:%H'' \<in> set argv then Completed 0 ''a1b2c3d4e5'' []
        else Completed 0 [] [],
      now_strftime := ''2026-01-01 00:00:00'',
      json_dumps := \<lambda>j. ''{}''\<rparr>"

definition small_repo_commits :: commit_stats where
  "small_repo_commits =
     \<lparr>total_commits = 1, unique_commits = 1, recent_commits = 1,
      first_commit = Some ''2024-03-01'', last_commit = Some ''2024-03-01'',
      commits_by_branch = [], commits_by_year = [(''2024'', 1)], commits_by_day = [],
      commits_by_month = [(''2024-03'', 1)]\<rparr>"

definition small_repo_loc :: loc_stats where
  "small_repo_loc =
     \<lparr>files_modified = 0, total_loc = 0, lines_added = 0, lines_deleted = 0, net_lines = 0,
      files_by_extension = [], largest_files = []\<rparr>"

section \<open>Failure of a request-count source\<close>

text \<open>
  The failure modes of the three request-count sources, as the specification lists them.
  A hosting CLI fails when the program is not installed (\<^verbatim>\<open>FileNotFoundError\<close>), when it
  exits with a non-zero status, or when its output does not parse; the primary CLI also
  fails when its session is not authenticated. The REST source fails when the remote URL
  cannot be read or does not name the hosting domain, when the request raises, when the
  status is not 200, or when the body does not decode to an object.
\<close>

definition caught_by_cli :: "py_exn \<Rightarrow> bool" where
  "caught_by_cli e =
     (case e of
        CalledProcessError rc err \<Rightarrow> True
      | JSONDecodeError m \<Rightarrow> True
      | FileNotFoundError m \<Rightarrow> True
      | _ \<Rightarrow> False)"

definition listing_fails :: "env \<Rightarrow> string list \<Rightarrow> bool" where
  "listing_fails E argv =
     (case subprocess_run E None argv of
        Raises e \<Rightarrow> caught_by_cli e
      | Completed rc out err \<Rightarrow> rc \<noteq> 0 \<or> json_loads E out = None)"

definition github_cli_fails :: "env \<Rightarrow> string \<Rightarrow> bool" where
  "github_cli_fails E username =
     (case subprocess_run E None [''gh'', ''auth'', ''status''] of
        Raises e \<Rightarrow> caught_by_cli e
      | Completed rc out err \<Rightarrow>
          rc \<noteq> 0 \<or>
          listing_fails E [''gh'', ''pr'', ''list'', ''--author'', username, ''--json'', ''number''])"

definition gitlab_cli_fails :: "env \<Rightarrow> string \<Rightarrow> bool" where
  "gitlab_cli_fails E username =
     listing_fails E [''glab'', ''mr'', ''list'', ''--author'', username, ''--json'', ''id'']"

definition github_api_fails :: "env \<Rightarrow> analytics \<Rightarrow> string \<Rightarrow> bool" where
  "github_api_fails E self username =
     (case git_output E self [''config'', ''--get'', ''remote.origin.url''] of
        Inl e \<Rightarrow> True
      | Inr remote_url \<Rightarrow>
          \<not> py_contains ''github.com'' remote_url \<or>
          (case http_get E (search_url username remote_url) (auth_headers E) of
             HttpRaises e \<Rightarrow> True
           | HttpResponse status body \<Rightarrow>
               status \<noteq> 200 \<or>
               (case body of
                  Inl e \<Rightarrow> True
                | Inr data \<Rightarrow> (case data of JObj kvs \<Rightarrow> False | _ \<Rightarrow> True))))"

text \<open>
  Both hosting CLIs installed and authenticated, with two requests listed by the primary
  one; the secondary CLI and the REST interface would answer as well.
\<close>

definition gh_two_requests :: string where
  "gh_two_requests =
     ''[{'' @ [CHR 0x22] @ ''number'' @ [CHR 0x22] @ '':7},{'' @
     [CHR 0x22] @ ''number'' @ [CHR 0x22] @ '':9}]''"

definition glab_one_request :: string where
  "glab_one_request = ''[{'' @ [CHR 0x22] @ ''id'' @ [CHR 0x22] @ '':1}]''"

definition both_cli_env :: env where
  "both_cli_env =
     null_env\<lparr>subprocess_run := \<lambda>cwd argv.
        if argv = [''gh'', ''auth'', ''status''] then Completed 0 [] ''Logged in''
        else if hd argv = ''gh'' then Completed 0 gh_two_requests []
        else if hd argv = ''glab'' then Completed 0 glab_one_request []
        else Completed 0 ''https://github.com/alice/proj.git'' [],
      json_loads := \<lambda>s.
        if s = gh_two_requests
        then Some (JArr [JObj [(''number'', JInt 7)], JObj [(''number'', JInt 9)]])
        else if s = glab_one_request then Some (JArr [JObj [(''id'', JInt 1)]])
        else None,
      http_get := \<lambda>url headers. HttpResponse 200 (Inr (JObj [(''total_count'', JInt 5)]))\<rparr>"

text \<open>
  The primary CLI is not authenticated, the secondary CLI is not installed, and the REST
  interface answers 403.
\<close>

definition no_source_env :: env where
  "no_source_env =
     null_env\<lparr>subprocess_run := \<lambda>cwd argv.
        if argv = [''gh'', ''auth'', ''status''] then Completed 1 [] ''not logged in''
        else if hd argv = ''git'' then Completed 0 ''https://github.com/alice/proj.git'' []
        else Raises (FileNotFoundError ''No such file or directory''),
      http_get := \<lambda>url headers. HttpResponse 403 (Inl (JSONDecodeError ''Expecting value''))\<rparr>"

section \<open>Histories and their listings\<close>

text \<open>
  The history query interface prints one record per line. A listed commit carries its full
  hash, its one-line text (abbreviated hash and subject) and whether its date lies in the
  trailing thirty days; a history is the list of the author's commits as the traversal of
  all refs lists them under the date filter in force, a commit that several refs surface
  possibly more than once. A hash holds no whitespace, and a one-line text starts with
  the hash and has no line break.
\<close>

record listed_commit =
  full_hash :: string
  oneline_text :: string
  is_recent :: bool

definition well_formed_commit :: "listed_commit \<Rightarrow> bool" where
  "well_formed_commit c =
     (full_hash c \<noteq> [] \<and> list_all (\<lambda>ch. \<not> py_isspace ch) (full_hash c) \<and>
      oneline_text c \<noteq> [] \<and> \<not> py_isspace (hd (oneline_text c)) \<and>
      CHR 0x0A \<notin> set (oneline_text c))"

text \<open>
  The one-line listing ends every record with a newline, the formatted listing separates
  the records by newlines.
\<close>

definition oneline_listing :: "listed_commit list \<Rightarrow> string" where
  "oneline_listing H = concat (map (\<lambda>c. oneline_text c @ NL) H)"

definition hash_listing :: "listed_commit list \<Rightarrow> string" where
  "hash_listing H = py_join NL (map full_hash H)"

text \<open>
  A repository whose history is \<open>H\<close>: the three counting queries list \<open>H\<close>, the query for
  the trailing thirty days lists the recent commits of \<open>H\<close>.
\<close>

definition history_env :: "listed_commit list \<Rightarrow> env" where
  "history_env H =
     null_env\<lparr>subprocess_run := \<lambda>cwd argv.
        if ''--since=30 days ago'' \<in> set argv
        then Completed 0 (oneline_listing (filter is_recent H)) []
        else if ''--oneline'' \<in> set argv \<and> ''--all'' \<in> set argv
        then Completed 0 (oneline_listing H) []
        else if ''--pretty=format:%H'' \<in> set argv then Completed 0 (hash_listing H) []
        else Completed 0 [] []\<rparr>"

text \<open>A line of a listing: not empty, starting with a non-blank, without a line break.\<close>

definition line_ok :: "string \<Rightarrow> bool" where
  "line_ok l = (l \<noteq> [] \<and> \<not> py_isspace (hd l) \<and> CHR 0x0A \<notin> set l)"

text \<open>
  Three commits, the newest of them recent; and a history of two commits in which a merge,
  visible through two refs, is listed twice, all of it recent.
\<close>

definition three_commits :: "listed_commit list" where
  "three_commits =
     [\<lparr>full_hash = ''c3c3c3c3'', oneline_text = ''c3c3c3c add parser'', is_recent = True\<rparr>,
      \<lparr>full_hash = ''b2b2b2b2'', oneline_text = ''b2b2b2b fix typo '', is_recent = False\<rparr>,
      \<lparr>full_hash = ''a1a1a1a1'', oneline_text = ''a1a1a1a initial'', is_recent = False\<rparr>]"

definition merge_listed_twice :: "listed_commit list" where
  "merge_listed_twice =
     [\<lparr>full_hash = ''d4d4d4d4'', oneline_text = ''d4d4d4d merge topic'', is_recent = True\<rparr>,
      \<lparr>full_hash = ''a1a1a1a1'', oneline_text = ''a1a1a1a initial'', is_recent = True\<rparr>,
      \<lparr>full_hash = ''d4d4d4d4'', oneline_text = ''d4d4d4d merge topic'', is_recent = True\<rparr>]"

text \<open>A year token of a well-formed short date: four decimal digits.\<close>

definition four_digit_year :: "string \<Rightarrow> bool" where
  "four_digit_year y = (length y = 4 \<and> list_all is_digit y)"

section \<open>The command runner\<close>

lemma py_strip_tail:
  "dropWhile py_isspace s =
     py_strip s @ rev (takeWhile py_isspace (rev (dropWhile py_isspace s)))"
proof -
  let ?t = "dropWhile py_isspace s"
  have "py_strip s @ rev (takeWhile py_isspace (rev ?t)) =
        rev (takeWhile py_isspace (rev ?t) @ dropWhile py_isspace (rev ?t))"
    by (simp only: py_strip_def rev_append)
  also have "\<dots> = rev (rev ?t)"
    by (simp only: takeWhile_dropWhile_id)
  finally show ?thesis
    by simp
qed

lemma py_strip_decomp:
  "s = takeWhile py_isspace s @ py_strip s @
       rev (takeWhile py_isspace (rev (dropWhile py_isspace s)))"
proof -
  have "s = takeWhile py_isspace s @ dropWhile py_isspace s"
    by simp
  then show ?thesis
    using py_strip_tail [of s] by simp
qed

lemma py_strip_last:
  assumes "py_strip s \<noteq> []"
  shows "\<not> py_isspace (last (py_strip s))"
proof -
  let ?u = "dropWhile py_isspace (rev (dropWhile py_isspace s))"
  from assms have ne: "?u \<noteq> []"
    by (simp add: py_strip_def)
  then have "\<not> py_isspace (hd ?u)"
    by (rule hd_dropWhile)
  moreover have "last (py_strip s) = hd ?u"
    using ne by (simp add: py_strip_def last_rev)
  ultimately show ?thesis
    by simp
qed

lemma py_strip_hd:
  assumes "py_strip s \<noteq> []"
  shows "\<not> py_isspace (hd (py_strip s))"
proof -
  let ?t = "dropWhile py_isspace s"
  have dec: "?t = py_strip s @ rev (takeWhile py_isspace (rev ?t))"
    by (rule py_strip_tail)
  with assms have ne: "?t \<noteq> []"
    by (metis append_is_Nil_conv)
  then have "\<not> py_isspace (hd ?t)"
    by (rule hd_dropWhile)
  moreover have "hd ?t = hd (py_strip s)"
    using dec assms by (metis hd_append2)
  ultimately show ?thesis
    by simp
qed

lemma run_git_command_completed:
  assumes "subprocess_run E (Some (repo_path self)) (''git'' # command) = Completed rc out err"
  shows "run_git_command E self command w =
           (if rc \<noteq> 0
            then (Inr [],
                  w\<lparr>invoked := invoked w @ [Subprocess (Some (repo_path self)) (''git'' # command)],
                    printed := printed w @
                      [''Git command failed: '' @ py_join '' '' command, ''Error: '' @ err]\<rparr>)
            else (Inr (py_strip out),
                  w\<lparr>invoked := invoked w @ [Subprocess (Some (repo_path self)) (''git'' # command)]\<rparr>))"
  using assms
  by (simp add: run_git_command_def io_catch_def io_bind_def io_return_def py_print_def
      subprocess_run_io_def Let_def)

lemma run_git_command_not_CalledProcessError:
  "fst (run_git_command E self command w) \<noteq> Inl (CalledProcessError rc err)"
  by (simp add: run_git_command_def io_catch_def io_bind_def io_return_def io_raise_def
      py_print_def subprocess_run_io_def Let_def split: proc_outcome.splits py_exn.splits)

text \<open>
  C5, as the code has it. When the external command completes with a non-zero exit status,
  \<^verbatim>\<open>run_git_command\<close> prints two lines, the command (its arguments joined by spaces) and
  the captured standard error, raises nothing and returns the empty string; the exit
  status itself is not printed. When the command completes with status zero, nothing is
  printed and the result is the standard output without its leading and trailing
  whitespace: what is cut off on either side is whitespace only, and what remains neither
  starts nor ends with whitespace.
\<close>

theorem run_git_command_outcome:
  assumes "subprocess_run E (Some (repo_path self)) (''git'' # command) = Completed rc out err"
  shows "run_git_command E self command w =
           (if rc \<noteq> 0
            then (Inr [],
                  w\<lparr>invoked := invoked w @ [Subprocess (Some (repo_path self)) (''git'' # command)],
                    printed := printed w @
                      [''Git command failed: '' @ py_join '' '' command, ''Error: '' @ err]\<rparr>)
            else (Inr (py_strip out),
                  w\<lparr>invoked := invoked w @ [Subprocess (Some (repo_path self)) (''git'' # command)]\<rparr>))
         \<and> out = takeWhile py_isspace out @ py_strip out @
                 rev (takeWhile py_isspace (rev (dropWhile py_isspace out)))
         \<and> (py_strip out = [] \<or>
              (\<not> py_isspace (hd (py_strip out)) \<and> \<not> py_isspace (last (py_strip out))))"
proof (intro conjI)
  show "run_git_command E self command w =
           (if rc \<noteq> 0
            then (Inr [],
                  w\<lparr>invoked := invoked w @ [Subprocess (Some (repo_path self)) (''git'' # command)],
                    printed := printed w @
                      [''Git command failed: '' @ py_join '' '' command, ''Error: '' @ err]\<rparr>)
            else (Inr (py_strip out),
                  w\<lparr>invoked := invoked w @ [Subprocess (Some (repo_path self)) (''git'' # command)]\<rparr>))"
    using assms by (rule run_git_command_completed)
  show "out = takeWhile py_isspace out @ py_strip out @
                 rev (takeWhile py_isspace (rev (dropWhile py_isspace out)))"
    by (rule py_strip_decomp)
  show "py_strip out = [] \<or>
              (\<not> py_isspace (hd (py_strip out)) \<and> \<not> py_isspace (last (py_strip out)))"
    using py_strip_hd py_strip_last by blast
qed

text \<open>
  The theorem at two runs of \<^verbatim>\<open>git status\<close>: one that fails with status 128, and one that
  succeeds and prints \<^verbatim>\<open>" ok\n"\<close>.
\<close>

theorem run_git_command_outcome_witness:
  "run_git_command (null_env\<lparr>subprocess_run := \<lambda>_ _. Completed 128 ''partial'' ''fatal''\<rparr>)
     here [''status''] fresh_world =
     (Inr [],
      \<lparr>printed = [''Git command failed: status'', ''Error: fatal''],
       invoked = [Subprocess (Some ''.'') [''git'', ''status'']]\<rparr>)
   \<and> run_git_command (null_env\<lparr>subprocess_run := \<lambda>_ _. Completed 0 ('' ok'' @ NL) []\<rparr>)
       here [''status''] fresh_world =
       (Inr ''ok'', \<lparr>printed = [], invoked = [Subprocess (Some ''.'') [''git'', ''status'']]\<rparr>)"
proof -
  have a: "subprocess_run (null_env\<lparr>subprocess_run := \<lambda>_ _. Completed 128 ''partial'' ''fatal''\<rparr>)
             (Some (repo_path here)) (''git'' # [''status'']) = Completed 128 ''partial'' ''fatal''"
    by simp
  have b: "subprocess_run (null_env\<lparr>subprocess_run := \<lambda>_ _. Completed 0 ('' ok'' @ NL) []\<rparr>)
             (Some (repo_path here)) (''git'' # [''status'']) = Completed 0 ('' ok'' @ NL) []"
    by simp
  show ?thesis
    using run_git_command_outcome [OF a, of fresh_world]
      run_git_command_outcome [OF b, of fresh_world]
    by (simp add: here_def fresh_world_def py_strip_def py_isspace_def NL_def)
qed

text \<open>
  The exit status is not part of what is reported: a command that fails with status 1 and
  one that fails with status 128, with the same error text, leave the same two lines, and
  neither line names the status.
\<close>

theorem run_git_command_status_not_reported:
  "printed (snd (run_git_command (null_env\<lparr>subprocess_run := \<lambda>_ _. Completed 1 [] ''fatal''\<rparr>)
                   here [''status''] fresh_world)) =
     [''Git command failed: status'', ''Error: fatal'']
   \<and> printed (snd (run_git_command
                     (null_env\<lparr>subprocess_run := \<lambda>_ _. Completed 128 [] ''fatal''\<rparr>)
                     here [''status''] fresh_world)) =
     [''Git command failed: status'', ''Error: fatal'']"
  by (simp add: run_git_command_def io_catch_def io_bind_def io_return_def py_print_def
      subprocess_run_io_def Let_def here_def fresh_world_def)

section \<open>The activity score\<close>

text \<open>
  C7. For every commit-statistics value, \<^verbatim>\<open>calculate_activity_score\<close> is ten times the
  total commit count plus fifty times the recent commit count; when both counts are zero
  the score is zero.
\<close>

theorem calculate_activity_score_exact:
  "calculate_activity_score stats = 10 * total_commits stats + 50 * recent_commits stats
   \<and> calculate_activity_score (stats\<lparr>total_commits := 0, recent_commits := 0\<rparr>) = 0"
  by (simp add: calculate_activity_score_def)

section \<open>Lines added and deleted\<close>

lemma io_bind_Inr:
  assumes "io_bind m f w = (Inr r, w')"
  shows "\<exists>x w1. m w = (Inr x, w1) \<and> f x w1 = (Inr r, w')"
  using assms by (auto simp: io_bind_def split: prod.splits sum.splits)

lemma run_git_command_fst: "fst (run_git_command E self command w) = git_output E self command"
  by (simp add: git_output_def run_git_command_def io_catch_def io_bind_def io_return_def
      io_raise_def py_print_def subprocess_run_io_def Let_def
      split: proc_outcome.splits py_exn.splits)

lemma numstat_step:
  "numstat_loop (line # rest) (a, d) =
     numstat_loop rest
       (a + (case spec_numstat_line line of None \<Rightarrow> 0 | Some (x, y) \<Rightarrow> x),
        d + (case spec_numstat_line line of None \<Rightarrow> 0 | Some (x, y) \<Rightarrow> y))"
proof (cases "py_split TAB line")
  case Nil
  then show ?thesis
    by (simp add: spec_numstat_line_def)
next
  case (Cons f1 r1)
  show ?thesis
  proof (cases r1)
    case Nil
    with Cons show ?thesis
      by (simp add: spec_numstat_line_def)
  next
    case (Cons f2 r2)
    with \<open>py_split TAB line = f1 # r1\<close> show ?thesis
      by (simp add: spec_numstat_line_def spec_numstat_count_def numstat_field_def
          split: option.splits)
  qed
qed

lemma numstat_loop_sums:
  "numstat_loop ls (a, d) = (a + spec_lines_added ls, d + spec_lines_deleted ls)"
proof (induction ls arbitrary: a d)
  case Nil
  show ?case
    by (simp add: spec_lines_added_def spec_lines_deleted_def)
next
  case (Cons line rest)
  show ?case
    unfolding numstat_step Cons.IH
    by (simp add: spec_lines_added_def spec_lines_deleted_def)
qed

text \<open>
  C6. Whenever \<^verbatim>\<open>get_lines_of_code\<close> returns, \<^verbatim>\<open>lines_added\<close> and \<^verbatim>\<open>lines_deleted\<close> are
  the two separate sums, over the lines of the numstat listing, of the added and the deleted
  field, where the marker \<^verbatim>\<open>-\<close> counts zero and a malformed line (blank, fewer than two
  fields, or a count field that is neither the marker nor an integer) contributes to
  neither; and \<^verbatim>\<open>net_lines\<close> is \<^verbatim>\<open>lines_added\<close> minus \<^verbatim>\<open>lines_deleted\<close>.
\<close>

theorem lines_added_deleted_sums:
  assumes "get_lines_of_code E self username w = (Inr stats, w')"
  shows "\<exists>out. git_output E self (log_all self username [''--pretty=tformat:'', ''--numstat'']) = Inr out
           \<and> lines_added stats = spec_lines_added (py_split NL out)
           \<and> lines_deleted stats = spec_lines_deleted (py_split NL out)
           \<and> net_lines stats = lines_added stats - lines_deleted stats"
proof -
  from assms obtain out_files w1 where
    "(io_bind (run_git_command E self
                (log_all self username [''--pretty=tformat:'', ''--numstat''])) (\<lambda>out_numstat.
       (case loc_loop E (set_iteration E (touched_files out_files)) (0, [], []) of
          (loc, file_sizes, ext_counts) \<Rightarrow>
            (case numstat_loop (py_split NL out_numstat) (0, 0) of
               (total_additions, total_deletions) \<Rightarrow>
                 io_return
                   \<lparr>files_modified = int (length (touched_files out_files)),
                    total_loc = loc,
                    lines_added = total_additions,
                    lines_deleted = total_deletions,
                    net_lines = total_additions - total_deletions,
                    files_by_extension = ext_counts,
                    largest_files = take 10 (sort_key (\<lambda>(path, n). - n) file_sizes)\<rparr>)))) w1
     = (Inr stats, w')"
    unfolding get_lines_of_code_def by (blast dest: io_bind_Inr)
  then obtain out w2 where
    run: "run_git_command E self (log_all self username [''--pretty=tformat:'', ''--numstat'']) w1
          = (Inr out, w2)"
    and res: "(case loc_loop E (set_iteration E (touched_files out_files)) (0, [], []) of
          (loc, file_sizes, ext_counts) \<Rightarrow>
            (case numstat_loop (py_split NL out) (0, 0) of
               (total_additions, total_deletions) \<Rightarrow>
                 io_return
                   \<lparr>files_modified = int (length (touched_files out_files)),
                    total_loc = loc,
                    lines_added = total_additions,
                    lines_deleted = total_deletions,
                    net_lines = total_additions - total_deletions,
                    files_by_extension = ext_counts,
                    largest_files = take 10 (sort_key (\<lambda>(path, n). - n) file_sizes)\<rparr>)) w2
       = (Inr stats, w')"
    by (blast dest: io_bind_Inr)
  from run have "git_output E self (log_all self username [''--pretty=tformat:'', ''--numstat''])
                 = Inr out"
    using run_git_command_fst [of E self "log_all self username [''--pretty=tformat:'', ''--numstat'']" w1]
    by simp
  moreover from res have "lines_added stats = spec_lines_added (py_split NL out)
      \<and> lines_deleted stats = spec_lines_deleted (py_split NL out)
      \<and> net_lines stats = lines_added stats - lines_deleted stats"
    by (auto simp: numstat_loop_sums io_return_def split: prod.splits)
  ultimately show ?thesis
    by blast
qed

text \<open>
  The listing \<^verbatim>\<open>"3\t1\tREADME.md"\<close>, \<^verbatim>\<open>"-\t-\timage.png"\<close> gives 3 lines added and 1 deleted;
  the listing \<^verbatim>\<open>"1\t4\tnotes.txt"\<close> gives a net of minus three.
\<close>

lemma get_lines_of_code_numstat_env:
  "get_lines_of_code (numstat_env readme_and_image) here ''alice'' fresh_world =
     (Inr \<lparr>files_modified = 0, total_loc = 0, lines_added = 3, lines_deleted = 1,
            net_lines = 2, files_by_extension = [], largest_files = []\<rparr>,
      \<lparr>printed = [],
       invoked =
         [Subprocess (Some ''.'')
            [''git'', ''log'', ''--all'', ''--author'', ''alice'', ''--name-only'',
             ''--pretty=format:''],
          Subprocess (Some ''.'')
            [''git'', ''log'', ''--all'', ''--author'', ''alice'', ''--pretty=tformat:'',
             ''--numstat'']]\<rparr>)"
  by (simp add: get_lines_of_code_def numstat_env_def readme_and_image_def null_env_def here_def
      fresh_world_def run_git_command_def io_catch_def io_bind_def io_return_def
      subprocess_run_io_def log_all_def build_date_filter_def truthy_def py_strip_def
      py_isspace_def NL_def TAB_def touched_files_def py_split_def numstat_field_def py_int_def
      Let_def is_digit_def nat_of_digits_def less_eq_char_def)

theorem lines_added_deleted_sums_witness:
  "get_lines_of_code (numstat_env readme_and_image) here ''alice'' fresh_world =
     (Inr \<lparr>files_modified = 0, total_loc = 0, lines_added = 3, lines_deleted = 1,
            net_lines = 2, files_by_extension = [], largest_files = []\<rparr>,
      \<lparr>printed = [],
       invoked =
         [Subprocess (Some ''.'')
            [''git'', ''log'', ''--all'', ''--author'', ''alice'', ''--name-only'',
             ''--pretty=format:''],
          Subprocess (Some ''.'')
            [''git'', ''log'', ''--all'', ''--author'', ''alice'', ''--pretty=tformat:'',
             ''--numstat'']]\<rparr>)
   \<and> (\<exists>out. git_output (numstat_env readme_and_image) here
                (log_all here ''alice'' [''--pretty=tformat:'', ''--numstat'']) = Inr out
            \<and> spec_lines_added (py_split NL out) = 3
            \<and> spec_lines_deleted (py_split NL out) = 1)
   \<and> numstat_loop [''1'' @ TAB @ ''4'' @ TAB @ ''notes.txt''] (0, 0) = (1, 4)
   \<and> spec_lines_added [''1'' @ TAB @ ''4'' @ TAB @ ''notes.txt''] -
       spec_lines_deleted [''1'' @ TAB @ ''4'' @ TAB @ ''notes.txt''] = - 3"
proof -
  have "spec_lines_added [''1'' @ TAB @ ''4'' @ TAB @ ''notes.txt''] = 1
      \<and> spec_lines_deleted [''1'' @ TAB @ ''4'' @ TAB @ ''notes.txt''] = 4"
    by (simp add: spec_lines_added_def spec_lines_deleted_def spec_numstat_line_def
        spec_numstat_count_def py_int_def py_strip_def py_isspace_def TAB_def py_split_def
        Let_def is_digit_def nat_of_digits_def less_eq_char_def)
  then show ?thesis
    using lines_added_deleted_sums [OF get_lines_of_code_numstat_env]
      get_lines_of_code_numstat_env numstat_loop_sums [of "[''1'' @ TAB @ ''4'' @ TAB @ ''notes.txt'']" 0 0]
    by auto
qed

section \<open>Current line counts\<close>

lemma dict_set_add_sum:
  "sum_list (map snd (dict_set k (dict_get d k 0 + n) d)) = sum_list (map snd d) + (n::int)"
  by (induction d) (auto simp: dict_get_def)

lemma dict_set_keys: "set (map fst (dict_set k v d)) = insert k (set (map fst d))"
proof (induction d)
  case Nil
  show ?case by simp
next
  case (Cons p d)
  obtain k' v' where p: "p = (k', v')"
    by (cases p)
  show ?case
  proof (cases "k' = k")
    case True
    with p show ?thesis by simp
  next
    case False
    with p Cons.IH show ?thesis by auto
  qed
qed

lemma dict_set_distinct: "distinct (map fst d) \<Longrightarrow> distinct (map fst (dict_set k v d))"
proof (induction d)
  case Nil
  show ?case by simp
next
  case (Cons p d)
  obtain k' v' where p: "p = (k', v')"
    by (cases p)
  show ?case
  proof (cases "k' = k")
    case True
    with Cons.prems p show ?thesis by simp
  next
    case False
    with Cons p show ?thesis
      using dict_set_keys [of k v d] by auto
  qed
qed

lemma loc_loop_invariant:
  assumes "sum_list (map snd exts) = loc" and "distinct (map fst exts)"
    and "loc_loop E paths (loc, sizes, exts) = (loc', sizes', exts')"
  shows "sum_list (map snd exts') = loc' \<and> distinct (map fst exts')"
  using assms
proof (induction paths arbitrary: loc sizes exts)
  case Nil
  then show ?case by simp
next
  case (Cons file_path rest)
  show ?case
  proof (cases "path_isfile E (process_cwd E) file_path")
    case False
    with Cons.prems have "loc_loop E rest (loc, sizes, exts) = (loc', sizes', exts')"
      by simp
    with Cons.IH Cons.prems(1,2) show ?thesis
      by blast
  next
    case True
    show ?thesis
    proof (cases "open_readlines E (process_cwd E) file_path")
      case (Inl e)
      with True Cons.prems have "loc_loop E rest (loc, sizes, exts) = (loc', sizes', exts')"
        by simp
      with Cons.IH Cons.prems(1,2) show ?thesis
        by blast
    next
      case (Inr ls)
      let ?ext = "os_splitext_ext file_path"
      let ?exts = "dict_set ?ext (dict_get exts ?ext 0 + int (length ls)) exts"
      from True Inr Cons.prems
      have run: "loc_loop E rest (loc + int (length ls), sizes @ [(file_path, int (length ls))], ?exts)
                 = (loc', sizes', exts')"
        by simp
      have "sum_list (map snd ?exts) = loc + int (length ls)"
        using Cons.prems(1) by (simp add: dict_set_add_sum)
      moreover have "distinct (map fst ?exts)"
        using Cons.prems(2) by (rule dict_set_distinct)
      ultimately show ?thesis
        using Cons.IH run by blast
    qed
  qed
qed

text \<open>
  C9. Whenever \<^verbatim>\<open>get_lines_of_code\<close> returns, the values of \<^verbatim>\<open>files_by_extension\<close> sum to
  \<^verbatim>\<open>total_loc\<close>, and no extension appears twice among its keys: the line count of every
  counted file went into exactly one bucket.
\<close>

theorem extension_totals_sum_to_total_loc:
  assumes "get_lines_of_code E self username w = (Inr stats, w')"
  shows "sum_list (map snd (files_by_extension stats)) = total_loc stats
         \<and> distinct (map fst (files_by_extension stats))"
proof -
  from assms obtain out_files w1 where
    "(io_bind (run_git_command E self
                (log_all self username [''--pretty=tformat:'', ''--numstat''])) (\<lambda>out_numstat.
       (case loc_loop E (set_iteration E (touched_files out_files)) (0, [], []) of
          (loc, file_sizes, ext_counts) \<Rightarrow>
            (case numstat_loop (py_split NL out_numstat) (0, 0) of
               (total_additions, total_deletions) \<Rightarrow>
                 io_return
                   \<lparr>files_modified = int (length (touched_files out_files)),
                    total_loc = loc,
                    lines_added = total_additions,
                    lines_deleted = total_deletions,
                    net_lines = total_additions - total_deletions,
                    files_by_extension = ext_counts,
                    largest_files = take 10 (sort_key (\<lambda>(path, n). - n) file_sizes)\<rparr>)))) w1
     = (Inr stats, w')"
    unfolding get_lines_of_code_def by (blast dest: io_bind_Inr)
  then obtain out w2 where
    res: "(case loc_loop E (set_iteration E (touched_files out_files)) (0, [], []) of
          (loc, file_sizes, ext_counts) \<Rightarrow>
            (case numstat_loop (py_split NL out) (0, 0) of
               (total_additions, total_deletions) \<Rightarrow>
                 io_return
                   \<lparr>files_modified = int (length (touched_files out_files)),
                    total_loc = loc,
                    lines_added = total_additions,
                    lines_deleted = total_deletions,
                    net_lines = total_additions - total_deletions,
                    files_by_extension = ext_counts,
                    largest_files = take 10 (sort_key (\<lambda>(path, n). - n) file_sizes)\<rparr>)) w2
       = (Inr stats, w')"
    by (blast dest: io_bind_Inr)
  obtain loc sizes exts where
    loop: "loc_loop E (set_iteration E (touched_files out_files)) (0, [], []) = (loc, sizes, exts)"
    by (cases "loc_loop E (set_iteration E (touched_files out_files)) (0, [], [])")
  have "sum_list (map snd exts) = loc \<and> distinct (map fst exts)"
    by (rule loc_loop_invariant [OF _ _ loop]) simp_all
  moreover from res loop have "files_by_extension stats = exts \<and> total_loc stats = loc"
    by (auto simp: io_return_def split: prod.splits)
  ultimately show ?thesis
    by simp
qed

lemma get_lines_of_code_checkout_env:
  "get_lines_of_code checkout_env here ''alice'' fresh_world =
     (Inr \<lparr>files_modified = 4, total_loc = 3, lines_added = 0, lines_deleted = 0,
            net_lines = 0, files_by_extension = [(''.py'', 3)],
            largest_files = [(''a.py'', 2), (''b.py'', 1)]\<rparr>,
      \<lparr>printed = [],
       invoked =
         [Subprocess (Some ''.'')
            [''git'', ''log'', ''--all'', ''--author'', ''alice'', ''--name-only'',
             ''--pretty=format:''],
          Subprocess (Some ''.'')
            [''git'', ''log'', ''--all'', ''--author'', ''alice'', ''--pretty=tformat:'',
             ''--numstat'']]\<rparr>)"
  by (simp add: get_lines_of_code_def checkout_env_def null_env_def here_def
      fresh_world_def run_git_command_def io_catch_def io_bind_def io_return_def
      subprocess_run_io_def log_all_def build_date_filter_def truthy_def py_strip_def
      py_isspace_def NL_def TAB_def touched_files_def py_split_def 
      Let_def os_splitext_ext_def os_basename_def dict_get_def)

theorem extension_totals_sum_to_total_loc_witness:
  "get_lines_of_code checkout_env here ''alice'' fresh_world =
     (Inr \<lparr>files_modified = 4, total_loc = 3, lines_added = 0, lines_deleted = 0,
            net_lines = 0, files_by_extension = [(''.py'', 3)],
            largest_files = [(''a.py'', 2), (''b.py'', 1)]\<rparr>,
      \<lparr>printed = [],
       invoked =
         [Subprocess (Some ''.'')
            [''git'', ''log'', ''--all'', ''--author'', ''alice'', ''--name-only'',
             ''--pretty=format:''],
          Subprocess (Some ''.'')
            [''git'', ''log'', ''--all'', ''--author'', ''alice'', ''--pretty=tformat:'',
             ''--numstat'']]\<rparr>)
   \<and> sum_list (map snd [(''.py'', 3::int)]) = 3"
  using extension_totals_sum_to_total_loc [OF get_lines_of_code_checkout_env]
    get_lines_of_code_checkout_env
  by simp

text \<open>
  C8, at an input where the code departs from it. The tool runs in \<^verbatim>\<open>/home/u\<close> on the
  repository \<^verbatim>\<open>/srv/repo\<close>; the touched path \<^verbatim>\<open>a.py\<close> is a regular file of three lines
  when resolved against the repository root. \<^verbatim>\<open>get_lines_of_code\<close> looks the path up
  against the working directory of the process, finds nothing, and counts no line.
\<close>

theorem lines_counted_against_process_cwd:
  "path_isfile elsewhere_env ''/srv/repo'' ''a.py''
   \<and> open_readlines elsewhere_env ''/srv/repo'' ''a.py'' = Inr [''x'', ''y'', ''z'']
   \<and> fst (get_lines_of_code elsewhere_env
            \<lparr>repo_path = ''/srv/repo'', start_date = None, end_date = None\<rparr> ''alice''
            fresh_world) =
       Inr \<lparr>files_modified = 1, total_loc = 0, lines_added = 0, lines_deleted = 0,
            net_lines = 0, files_by_extension = [], largest_files = []\<rparr>"
  by (simp add: get_lines_of_code_def elsewhere_env_def null_env_def 
      fresh_world_def run_git_command_def io_catch_def io_bind_def io_return_def
      subprocess_run_io_def log_all_def build_date_filter_def truthy_def py_strip_def
      py_isspace_def NL_def TAB_def touched_files_def py_split_def 
      Let_def)

section \<open>Locating the repository: the probe\<close>

lemma validate_repo_probe_completed:
  assumes "subprocess_run E (Some (repo_path self)) [''git'', ''rev-parse'', ''--git-dir'']
           = Completed rc out err"
  shows "fst (validate_repo E self w) = Inr (True, self)"
  using run_git_command_completed [OF assms, of w]
  by (simp add: validate_repo_def io_catch_def io_bind_def io_return_def)

lemma find_repo_root_found:
  assumes "current_dir \<noteq> os_dirname current_dir"
    and "path_isdir E (process_cwd E) (os_join current_dir ''.git'')"
  shows "find_repo_root E self current_dir w =
           (Inr (True, self\<lparr>repo_path := current_dir\<rparr>),
            w\<lparr>printed := printed w @
                [''Warning: Navigating to Git repository root: '' @ current_dir]\<rparr>)"
  using assms by (subst find_repo_root.simps) simp

lemma find_repo_root_up:
  assumes "current_dir \<noteq> os_dirname current_dir"
    and "\<not> path_isdir E (process_cwd E) (os_join current_dir ''.git'')"
  shows "find_repo_root E self current_dir w = find_repo_root E self (os_dirname current_dir) w"
  using assms by (subst find_repo_root.simps) simp

lemma find_repo_root_top:
  assumes "current_dir = os_dirname current_dir"
  shows "find_repo_root E self current_dir w = (Inr (False, self), w)"
  using assms by (subst find_repo_root.simps) simp

lemma dirname_examples:
  "os_dirname ''/work/proj/src'' = ''/work/proj''"
  "os_dirname ''/work/proj'' = ''/work''"
  "os_dirname ''/tmp/scratch'' = ''/tmp''"
  "os_dirname ''/tmp'' = ''/''"
  "os_dirname ''/'' = ''/''"
  by (simp_all add: os_dirname_def)

lemma subdir_probe:
  "validate_repo subdir_env here fresh_world =
     (Inr (True, here),
      \<lparr>printed = [''Git command failed: rev-parse --git-dir'',
                  ''Error: fatal: not a git repository''],
       invoked = [Subprocess (Some ''.'') [''git'', ''rev-parse'', ''--git-dir'']]\<rparr>)"
  by (simp add: validate_repo_def run_git_command_def io_catch_def io_bind_def io_return_def
      py_print_def subprocess_run_io_def Let_def subdir_env_def null_env_def
      here_def fresh_world_def)

lemma subdir_walk:
  "find_repo_root subdir_env here ''/work/proj/src'' fresh_world =
       (Inr (True, here\<lparr>repo_path := ''/work/proj''\<rparr>),
        \<lparr>printed = [''Warning: Navigating to Git repository root: /work/proj''],
         invoked = []\<rparr>)"
proof -
  have "find_repo_root subdir_env here ''/work/proj/src'' fresh_world =
        find_repo_root subdir_env here (os_dirname ''/work/proj/src'') fresh_world"
    by (rule find_repo_root_up)
      (simp_all add: dirname_examples subdir_env_def null_env_def os_join_def)
  also have "\<dots> = find_repo_root subdir_env here ''/work/proj'' fresh_world"
    by (simp only: dirname_examples)
  also have "\<dots> = (Inr (True, here\<lparr>repo_path := ''/work/proj''\<rparr>),
        fresh_world\<lparr>printed := printed fresh_world @
                [''Warning: Navigating to Git repository root: '' @ ''/work/proj'']\<rparr>)"
    by (rule find_repo_root_found)
      (simp_all add: dirname_examples subdir_env_def null_env_def os_join_def)
  finally show ?thesis
    by (simp add: fresh_world_def)
qed

lemma outside_probe:
  "validate_repo outside_env here fresh_world =
     (Inr (True, here),
      \<lparr>printed = [''Git command failed: rev-parse --git-dir'',
                  ''Error: fatal: not a git repository''],
       invoked = [Subprocess (Some ''.'') [''git'', ''rev-parse'', ''--git-dir'']]\<rparr>)"
  by (simp add: validate_repo_def run_git_command_def io_catch_def io_bind_def io_return_def
      py_print_def subprocess_run_io_def Let_def outside_env_def null_env_def
      here_def fresh_world_def)

lemma outside_walk:
  "find_repo_root outside_env here ''/tmp/scratch'' fresh_world = (Inr (False, here), fresh_world)"
proof -
  have "find_repo_root outside_env here ''/tmp/scratch'' fresh_world =
        find_repo_root outside_env here (os_dirname ''/tmp/scratch'') fresh_world"
    by (rule find_repo_root_up)
      (simp_all add: dirname_examples outside_env_def null_env_def)
  also have "\<dots> = find_repo_root outside_env here ''/tmp'' fresh_world"
    by (simp only: dirname_examples)
  also have "\<dots> = find_repo_root outside_env here (os_dirname ''/tmp'') fresh_world"
    by (rule find_repo_root_up)
      (simp_all add: dirname_examples outside_env_def null_env_def)
  also have "\<dots> = find_repo_root outside_env here ''/'' fresh_world"
    by (simp only: dirname_examples)
  also have "\<dots> = (Inr (False, here), fresh_world)"
    by (rule find_repo_root_top) (simp add: dirname_examples)
  finally show ?thesis .
qed

text \<open>
  C3, at two inputs where the code departs from it. \<^verbatim>\<open>run_git_command\<close> turns the failed
  probe into the empty string, so the handler of \<^verbatim>\<open>validate_repo\<close> never runs: in the
  subdirectory of a checkout the result is \<^verbatim>\<open>True\<close> with \<^verbatim>\<open>repo_path\<close> unchanged and no
  relocation notice, although the walk from the absolute path would relocate to
  \<^verbatim>\<open>/work/proj\<close>; outside every checkout the result is \<^verbatim>\<open>True\<close> as well, although the walk
  would answer \<^verbatim>\<open>False\<close>.
\<close>

theorem validate_repo_failed_probe_accepted:
  "os_abspath subdir_env (repo_path here) = ''/work/proj/src''
   \<and> validate_repo subdir_env here fresh_world =
     (Inr (True, here),
      \<lparr>printed = [''Git command failed: rev-parse --git-dir'',
                  ''Error: fatal: not a git repository''],
       invoked = [Subprocess (Some ''.'') [''git'', ''rev-parse'', ''--git-dir'']]\<rparr>)
   \<and> find_repo_root subdir_env here ''/work/proj/src'' fresh_world =
       (Inr (True, here\<lparr>repo_path := ''/work/proj''\<rparr>),
        \<lparr>printed = [''Warning: Navigating to Git repository root: /work/proj''],
         invoked = []\<rparr>)
   \<and> os_abspath outside_env (repo_path here) = ''/tmp/scratch''
   \<and> validate_repo outside_env here fresh_world =
     (Inr (True, here),
      \<lparr>printed = [''Git command failed: rev-parse --git-dir'',
                  ''Error: fatal: not a git repository''],
       invoked = [Subprocess (Some ''.'') [''git'', ''rev-parse'', ''--git-dir'']]\<rparr>)
   \<and> find_repo_root outside_env here ''/tmp/scratch'' fresh_world =
       (Inr (False, here), fresh_world)"
proof -
  have "os_abspath subdir_env (repo_path here) = ''/work/proj/src''"
    by (simp add: subdir_env_def null_env_def here_def)
  moreover have "os_abspath outside_env (repo_path here) = ''/tmp/scratch''"
    by (simp add: outside_env_def null_env_def here_def)
  ultimately show ?thesis
    using subdir_probe subdir_walk outside_probe outside_walk by (intro conjI)
qed

section \<open>The year histogram\<close>

lemma py_str_int_1: "py_str_int 1 = ''1''"
  by code_simp

text \<open>
  C4, at an input where the code departs from it. The filter of the year histogram compares
  the whole line with \<^verbatim>\<open>0000\<close>, not its year token: the short date \<^verbatim>\<open>0000-01-01\<close> is kept,
  the histogram has the key \<^verbatim>\<open>0000\<close>, and the text report lists it.
\<close>

theorem sentinel_year_is_counted:
  "year_tokens (''2024-03-01'' @ NL @ ''0000-01-01'') = [''2024'', ''0000'']
   \<and> year_histogram (''2024-03-01'' @ NL @ ''0000-01-01'') = [(''2024'', 1), (''0000'', 1)]
   \<and> year_section (no_commits\<lparr>commits_by_year := [(''2024'', 1), (''0000'', 1)]\<rparr>) =
       [[CHR 0xF0, CHR 0x9F, CHR 0x93, CHR 0x88] @ '' Commits by Year:'',
        ''  0000: 1 commits'', ''  2024: 1 commits'', []]"
  by (simp add: year_tokens_def year_histogram_def py_dict_def most_common_def counter_def
      dict_get_def py_split_def NL_def year_section_def rendered_years_def no_commits_def
      py_str_int_1)

text \<open>
  The rest of C4 holds on the code: the keys of the histogram are distinct, and the text
  report lists them in strictly ascending order of the strings, which for four-digit years
  is the order of the numbers.
\<close>

lemma py_dict_distinct_from:
  "distinct (map fst d) \<Longrightarrow> distinct (map fst (foldl (\<lambda>d (k, v). dict_set k v d) d pairs))"
proof (induction pairs arbitrary: d)
  case Nil
  then show ?case by simp
next
  case (Cons p pairs)
  obtain k v where p: "p = (k, v)"
    by (cases p)
  from Cons.prems have "distinct (map fst (dict_set k v d))"
    by (rule dict_set_distinct)
  then show ?case
    using Cons.IH p by simp
qed

lemma year_histogram_distinct: "distinct (map fst (year_histogram output))"
  unfolding year_histogram_def py_dict_def
  by (rule py_dict_distinct_from) simp

lemma sorted_pairs_fst:
  fixes ys :: "(string \<times> int) list"
  shows "sorted ys \<Longrightarrow> sorted (map fst ys)"
  by (induction ys) (auto simp: less_eq_prod_def)

lemma sorted_pairs_keys_ascending:
  fixes xs :: "(string \<times> int) list"
  assumes "distinct (map fst xs)"
  shows "sorted_wrt (<) (map fst (sort xs))"
proof -
  have "sorted (map fst (sort xs))"
    by (rule sorted_pairs_fst) simp
  moreover from assms have "distinct xs" and "inj_on fst (set xs)"
    by (simp_all add: distinct_map)
  then have "distinct (map fst (sort xs))"
    by (simp add: distinct_map)
  ultimately show ?thesis
    by (simp add: strict_sorted_iff)
qed

lemma nat_of_digits_acc:
  "foldl (\<lambda>n c. 10 * n + (of_char c - 48)) m ds =
     m * 10 ^ length ds + foldl (\<lambda>n c. 10 * n + (of_char c - 48)) (0::nat) ds"
proof (induction ds arbitrary: m)
  case Nil
  show ?case by simp
next
  case (Cons d ds)
  show ?case
    using Cons.IH [of "10 * m + (of_char d - 48)"] Cons.IH [of "of_char d - 48"]
    by (simp add: algebra_simps)
qed

lemma nat_of_digits_Cons:
  "nat_of_digits (d # ds) = (of_char d - 48) * 10 ^ length ds + nat_of_digits ds"
  using nat_of_digits_acc [of "of_char d - 48" ds] by (simp add: nat_of_digits_def)

lemma nat_of_digits_bound:
  "list_all is_digit ds \<Longrightarrow> nat_of_digits ds < 10 ^ length ds"
proof (induction ds)
  case Nil
  show ?case by (simp add: nat_of_digits_def)
next
  case (Cons d ds)
  then have "(of_char d :: nat) \<le> 57"
    by (simp add: is_digit_def less_eq_char_def)
  then have "of_char d - 48 \<le> (9::nat)"
    by arith
  then have "((of_char d :: nat) - 48) * 10 ^ length ds \<le> 9 * 10 ^ length ds"
    by (rule mult_le_mono1)
  moreover from Cons have "nat_of_digits ds < 10 ^ length ds"
    by simp
  ultimately have "((of_char d :: nat) - 48) * 10 ^ length ds + nat_of_digits ds
                   < 9 * 10 ^ length ds + 10 ^ length ds"
    by (rule add_le_less_mono)
  then show ?case
    by (simp add: nat_of_digits_Cons)
qed

lemma digits_order_numeric:
  assumes "length a = length b" and "list_all is_digit a" and "list_all is_digit b"
  shows "(a < b) = (nat_of_digits a < nat_of_digits b)"
  using assms
proof (induction a b rule: list_induct2)
  case Nil
  show ?case by (simp add: nat_of_digits_def)
next
  case (Cons x xs y ys)
  let ?n = "length xs"
  have dx: "48 \<le> (of_char x :: nat)" and dy: "48 \<le> (of_char y :: nat)"
    using Cons.prems by (simp_all add: is_digit_def less_eq_char_def)
  have bx: "nat_of_digits xs < 10 ^ ?n" and "nat_of_digits ys < 10 ^ ?n"
    using Cons.prems Cons.hyps nat_of_digits_bound [of xs] nat_of_digits_bound [of ys]
    by simp_all
  have IH: "(xs < ys) = (nat_of_digits xs < nat_of_digits ys)"
    using Cons by simp
  consider "x < y" | "x = y" | "y < x"
    by (metis linorder_less_linear)
  then show ?case
  proof cases
    case 1
    then have "(of_char x :: nat) - 48 + 1 \<le> of_char y - 48"
      using dx dy by (simp add: less_char_def)
    then have "((of_char x :: nat) - 48 + 1) * 10 ^ ?n \<le> (of_char y - 48) * 10 ^ ?n"
      by (rule mult_le_mono1)
    then have "nat_of_digits (x # xs) < nat_of_digits (y # ys)"
      using bx Cons.hyps by (simp add: nat_of_digits_Cons algebra_simps)
    with 1 show ?thesis
      by simp
  next
    case 2
    with IH Cons.hyps show ?thesis
      by (simp add: nat_of_digits_Cons)
  next
    case 3
    then have "(of_char y :: nat) - 48 + 1 \<le> of_char x - 48"
      using dx dy by (simp add: less_char_def)
    then have "((of_char y :: nat) - 48 + 1) * 10 ^ ?n \<le> (of_char x - 48) * 10 ^ ?n"
      by (rule mult_le_mono1)
    then have "nat_of_digits (y # ys) < nat_of_digits (x # xs)"
      using \<open>nat_of_digits ys < 10 ^ ?n\<close> Cons.hyps by (simp add: nat_of_digits_Cons algebra_simps)
    moreover from 3 have "x \<noteq> y" and "\<not> x < y"
      by auto
    ultimately show ?thesis
      by simp
  qed
qed

lemma rendered_years_ascending:
  "sorted_wrt (<) (map fst (rendered_years (cs\<lparr>commits_by_year := year_histogram output\<rparr>)))"
  by (simp add: rendered_years_def sorted_pairs_keys_ascending year_histogram_distinct)

lemma rendered_years_numeric:
  assumes "list_all four_digit_year (map fst (year_histogram output))"
  shows "sorted_wrt (\<lambda>a b. nat_of_digits a < nat_of_digits b)
           (map fst (rendered_years (cs\<lparr>commits_by_year := year_histogram output\<rparr>)))"
proof (rule sorted_wrt_mono_rel [OF _ rendered_years_ascending])
  fix a b
  assume "a \<in> set (map fst (rendered_years (cs\<lparr>commits_by_year := year_histogram output\<rparr>)))"
    and "b \<in> set (map fst (rendered_years (cs\<lparr>commits_by_year := year_histogram output\<rparr>)))"
    and less: "a < b"
  with assms have "four_digit_year a" "four_digit_year b"
    by (auto simp: rendered_years_def list_all_iff)
  with less show "nat_of_digits a < nat_of_digits b"
    using digits_order_numeric [of a b] by (simp add: four_digit_year_def)
qed

section \<open>The report entry point\<close>

lemma generate_report_other_formats:
  "output_format \<noteq> ''json'' \<Longrightarrow>
   generate_report E self username output_format = generate_report E self username ''text''"
  by (simp add: generate_report_def cong: if_cong)

lemmas run_simps = run_git_command_def io_catch_def io_bind_def io_return_def io_raise_def
  py_print_def subprocess_run_io_def log_all_def build_date_filter_def truthy_def Let_def
  py_strip_def py_isspace_def NL_def TAB_def py_split_def null_env_def here_def

lemma small_validate: "fst (validate_repo small_repo here w) = Inr (True, here)"
  by (simp add: validate_repo_def small_repo_def run_simps)

lemma small_exists: "fst (check_user_exists small_repo here ''alice'' w) = Inr True"
  by (simp add: check_user_exists_def small_repo_def run_simps)

lemma small_commits: "fst (get_commit_stats small_repo here ''alice'' w) = Inr small_repo_commits"
  by (simp add: get_commit_stats_def small_repo_def run_simps small_repo_commits_def
      branch_stats_def count_lines_def count_unique_def year_histogram_def year_tokens_def
      month_keys_def day_names_def py_dict_def most_common_def counter_def dict_get_def)

lemma small_loc: "fst (get_lines_of_code small_repo here ''alice'' w) = Inr small_repo_loc"
  by (simp add: get_lines_of_code_def small_repo_def run_simps small_repo_loc_def
      touched_files_def)

lemma small_prs:
  "fst (get_pull_requests small_repo here ''alice'' w) =
     Inr \<lparr>pull_requests = JInt 0, source_tag = ''unknown''\<rparr>"
  by (simp add: get_pull_requests_def try_github_cli_def try_gitlab_cli_def try_github_api_def
      cli_except_def small_repo_def run_simps)

lemma fst_pair: "fst p = a \<Longrightarrow> p = (a, snd p)"
  by auto

text \<open>
  C10. When the repository is valid, the author has commits and the three collectors
  return, \<^verbatim>\<open>generate_report\<close> returns the structured document for the format \<^verbatim>\<open>json\<close> and the
  text rendering for every other format string; a format other than \<^verbatim>\<open>json\<close> behaves as
  \<^verbatim>\<open>text\<close> does.
\<close>

theorem generate_report_selects_rendering:
  assumes "validate_repo E self w = (Inr (True, self'), w1)"
    and "check_user_exists E self' username w1 = (Inr True, w2)"
    and "get_commit_stats E self' username w2 = (Inr cs, w3)"
    and "get_lines_of_code E self' username w3 = (Inr ls, w4)"
    and "get_pull_requests E self' username w4 = (Inr ps, w5)"
  shows "generate_report E self username output_format w =
           (Inr (if output_format = ''json''
                 then generate_json_report E self' username cs ls ps (calculate_activity_score cs)
                 else generate_text_report E self' username cs ls ps (calculate_activity_score cs)),
            w5)
         \<and> (output_format \<noteq> ''json'' \<longrightarrow>
              generate_report E self username output_format w =
              generate_report E self username ''text'' w)"
proof -
  have "generate_report E self username fmt w =
           (Inr (if fmt = ''json''
                 then generate_json_report E self' username cs ls ps (calculate_activity_score cs)
                 else generate_text_report E self' username cs ls ps (calculate_activity_score cs)),
            w5)" for fmt
    by (simp add: generate_report_def io_bind_def io_return_def assms)
  then show ?thesis
    by simp
qed

text \<open>
  The theorem on the small repository: the format \<^verbatim>\<open>structured\<close> gives the text rendering,
  \<^verbatim>\<open>json\<close> the structured document.
\<close>

theorem generate_report_selects_rendering_witness:
  "fst (generate_report small_repo here ''alice'' ''structured'' fresh_world) =
     Inr (generate_text_report small_repo here ''alice'' small_repo_commits small_repo_loc
            \<lparr>pull_requests = JInt 0, source_tag = ''unknown''\<rparr> 60)
   \<and> fst (generate_report small_repo here ''alice'' ''json'' fresh_world) =
     Inr (generate_json_report small_repo here ''alice'' small_repo_commits small_repo_loc
            \<lparr>pull_requests = JInt 0, source_tag = ''unknown''\<rparr> 60)
   \<and> generate_report small_repo here ''alice'' ''structured'' fresh_world =
     generate_report small_repo here ''alice'' ''text'' fresh_world"
proof -
  note h1 = fst_pair [OF small_validate [of fresh_world]]
  note h2 = fst_pair [OF small_exists]
  note h3 = fst_pair [OF small_commits]
  note h4 = fst_pair [OF small_loc]
  note h5 = fst_pair [OF small_prs]
  have score: "calculate_activity_score small_repo_commits = 60"
    by (simp add: calculate_activity_score_def small_repo_commits_def)
  note r1 = generate_report_selects_rendering
    [OF h1 h2 h3 h4 h5, where output_format = "''structured''"]
  note r2 = generate_report_selects_rendering
    [OF h1 h2 h3 h4 h5, where output_format = "''json''"]
  have a: "fst (generate_report small_repo here ''alice'' ''structured'' fresh_world) =
     Inr (generate_text_report small_repo here ''alice'' small_repo_commits small_repo_loc
            \<lparr>pull_requests = JInt 0, source_tag = ''unknown''\<rparr> 60)"
    using r1 [THEN conjunct1] by (simp add: score)
  have b: "fst (generate_report small_repo here ''alice'' ''json'' fresh_world) =
     Inr (generate_json_report small_repo here ''alice'' small_repo_commits small_repo_loc
            \<lparr>pull_requests = JInt 0, source_tag = ''unknown''\<rparr> 60)"
    using r2 [THEN conjunct1] by (simp add: score)
  have c: "generate_report small_repo here ''alice'' ''structured'' fresh_world =
     generate_report small_repo here ''alice'' ''text'' fresh_world"
    using r1 [THEN conjunct2] by simp
  from a b c show ?thesis
    by (intro conjI)
qed

section \<open>The request-count fallback chain\<close>

lemma try_github_cli_falls_through:
  assumes "github_cli_fails E username"
  shows "fst (try_github_cli E username w) = Inr None"
  using assms
  by (auto simp: github_cli_fails_def listing_fails_def caught_by_cli_def try_github_cli_def
      cli_except_def io_catch_def io_bind_def io_return_def io_raise_def py_print_def
      subprocess_run_io_def json_loads_io_def Let_def
      split: proc_outcome.splits py_exn.splits)

lemma try_gitlab_cli_falls_through:
  assumes "gitlab_cli_fails E username"
  shows "fst (try_gitlab_cli E username w) = Inr None"
  using assms
  by (auto simp: gitlab_cli_fails_def listing_fails_def caught_by_cli_def try_gitlab_cli_def
      cli_except_def io_catch_def io_bind_def io_return_def io_raise_def
      subprocess_run_io_def json_loads_io_def Let_def
      split: proc_outcome.splits py_exn.splits)

lemma run_git_command_pair:
  "run_git_command E self command w =
     (git_output E self command, snd (run_git_command E self command w))"
  using run_git_command_fst [of E self command w] by (metis prod.collapse)

lemma try_github_api_falls_through:
  assumes "github_api_fails E self username"
  shows "fst (try_github_api E self username w) = Inr None"
proof -
  obtain w1 where run:
    "run_git_command E self [''config'', ''--get'', ''remote.origin.url''] w =
       (git_output E self [''config'', ''--get'', ''remote.origin.url''], w1)"
    using run_git_command_pair by blast
  show ?thesis
  proof (cases "git_output E self [''config'', ''--get'', ''remote.origin.url'']")
    case (Inl e)
    with run show ?thesis
      by (simp add: try_github_api_def io_catch_def io_bind_def io_return_def py_print_def)
  next
    case (Inr remote_url)
    show ?thesis
    proof (cases "py_contains ''github.com'' remote_url")
      case False
      with Inr run show ?thesis
        by (simp add: try_github_api_def io_catch_def io_bind_def io_return_def)
    next
      case True
      with Inr assms have
        "case http_get E (search_url username remote_url) (auth_headers E) of
               HttpRaises e \<Rightarrow> True
             | HttpResponse status body \<Rightarrow>
                 status \<noteq> 200 \<or>
                 (case body of
                    Inl e \<Rightarrow> True
                  | Inr data \<Rightarrow> (case data of JObj kvs \<Rightarrow> False | _ \<Rightarrow> True))"
        by (simp add: github_api_fails_def)
      with Inr True run show ?thesis
        by (auto simp: try_github_api_def io_catch_def io_bind_def io_return_def io_raise_def
            py_print_def http_get_io_def total_count_io_def Let_def
            split: http_outcome.splits sum.splits json.splits)
    qed
  qed
qed

lemma get_pull_requests_first_stage:
  assumes "subprocess_run E None [''gh'', ''auth'', ''status''] = Completed 0 out1 err1"
    and "subprocess_run E None
           [''gh'', ''pr'', ''list'', ''--author'', username, ''--json'', ''number'']
         = Completed 0 out2 err2"
    and "json_loads E out2 = Some data"
    and "py_len data = Inr n"
  shows "get_pull_requests E self username w =
           (Inr \<lparr>pull_requests = JInt n, source_tag = ''github_cli''\<rparr>,
            w\<lparr>invoked := invoked w @
                 [Subprocess None [''gh'', ''auth'', ''status''],
                  Subprocess None
                    [''gh'', ''pr'', ''list'', ''--author'', username, ''--json'', ''number'']]\<rparr>)"
  using assms
  by (simp add: get_pull_requests_def try_github_cli_def io_catch_def io_bind_def io_return_def
      subprocess_run_io_def json_loads_io_def len_io_def Let_def)

lemma get_pull_requests_all_fail:
  assumes "github_cli_fails E username" and "gitlab_cli_fails E username"
    and "github_api_fails E self username"
  shows "fst (get_pull_requests E self username w) =
           Inr \<lparr>pull_requests = JInt 0, source_tag = ''unknown''\<rparr>"
proof -
  obtain w1 where s1: "try_github_cli E username w = (Inr None, w1)"
    using try_github_cli_falls_through [OF assms(1), of w] by (metis prod.collapse)
  obtain w2 where s2: "try_gitlab_cli E username w1 = (Inr None, w2)"
    using try_gitlab_cli_falls_through [OF assms(2), of w1] by (metis prod.collapse)
  obtain w3 where s3: "try_github_api E self username w2 = (Inr None, w3)"
    using try_github_api_falls_through [OF assms(3), of w2] by (metis prod.collapse)
  show ?thesis
    by (simp add: get_pull_requests_def io_bind_def io_return_def s1 s2 s3)
qed

text \<open>
  C2. When the primary hosting CLI succeeds (its session is authenticated, the listing exits
  with status zero and its output parses to a value with a length), \<^verbatim>\<open>get_pull_requests\<close>
  returns that count with the tag \<^verbatim>\<open>github_cli\<close>, and the only processes it has started are
  the two of the primary CLI: the secondary CLI, the remote-URL query and the REST request
  are never invoked. When all three sources fail, the result is the count 0 with the tag
  \<^verbatim>\<open>unknown\<close>.
\<close>

theorem get_pull_requests_fallback_order:
  "(subprocess_run E None [''gh'', ''auth'', ''status''] = Completed 0 out1 err1 \<and>
    subprocess_run E None [''gh'', ''pr'', ''list'', ''--author'', username, ''--json'', ''number'']
      = Completed 0 out2 err2 \<and>
    json_loads E out2 = Some data \<and> py_len data = Inr n \<longrightarrow>
    get_pull_requests E self username w =
      (Inr \<lparr>pull_requests = JInt n, source_tag = ''github_cli''\<rparr>,
       w\<lparr>invoked := invoked w @
            [Subprocess None [''gh'', ''auth'', ''status''],
             Subprocess None
               [''gh'', ''pr'', ''list'', ''--author'', username, ''--json'', ''number'']]\<rparr>))
   \<and> (github_cli_fails E username \<and> gitlab_cli_fails E username \<and>
        github_api_fails E self username \<longrightarrow>
        fst (get_pull_requests E self username w) =
          Inr \<lparr>pull_requests = JInt 0, source_tag = ''unknown''\<rparr>)"
  using get_pull_requests_first_stage [of E out1 err1 username out2 err2 data n self w]
    get_pull_requests_all_fail [of E username self w]
  by blast

lemma both_cli_env_facts:
  "subprocess_run both_cli_env None [''gh'', ''auth'', ''status''] = Completed 0 [] ''Logged in''"
  "subprocess_run both_cli_env None
     [''gh'', ''pr'', ''list'', ''--author'', ''alice'', ''--json'', ''number'']
   = Completed 0 gh_two_requests []"
  "json_loads both_cli_env gh_two_requests =
     Some (JArr [JObj [(''number'', JInt 7)], JObj [(''number'', JInt 9)]])"
  "py_len (JArr [JObj [(''number'', JInt 7)], JObj [(''number'', JInt 9)]]) = Inr 2"
  by (simp_all add: both_cli_env_def null_env_def py_len_def gh_two_requests_def
      glab_one_request_def)

lemma no_source_env_facts:
  "github_cli_fails no_source_env ''alice''"
  "gitlab_cli_fails no_source_env ''alice''"
  "github_api_fails no_source_env here ''alice''"
  by (simp_all add: github_cli_fails_def gitlab_cli_fails_def github_api_fails_def
      listing_fails_def caught_by_cli_def no_source_env_def null_env_def git_output_def
      run_git_command_def io_catch_def io_bind_def io_return_def subprocess_run_io_def Let_def
      py_strip_def py_isspace_def here_def fresh_world_def)

text \<open>
  The theorem where every source would answer, and where none does.
\<close>

theorem get_pull_requests_fallback_order_witness:
  "get_pull_requests both_cli_env here ''alice'' fresh_world =
     (Inr \<lparr>pull_requests = JInt 2, source_tag = ''github_cli''\<rparr>,
      \<lparr>printed = [],
       invoked =
         [Subprocess None [''gh'', ''auth'', ''status''],
          Subprocess None
            [''gh'', ''pr'', ''list'', ''--author'', ''alice'', ''--json'', ''number'']]\<rparr>)
   \<and> fst (get_pull_requests no_source_env here ''alice'' fresh_world) =
       Inr \<lparr>pull_requests = JInt 0, source_tag = ''unknown''\<rparr>"
proof -
  have "get_pull_requests both_cli_env here ''alice'' fresh_world =
     (Inr \<lparr>pull_requests = JInt 2, source_tag = ''github_cli''\<rparr>,
      fresh_world\<lparr>invoked := invoked fresh_world @
         [Subprocess None [''gh'', ''auth'', ''status''],
          Subprocess None
            [''gh'', ''pr'', ''list'', ''--author'', ''alice'', ''--json'', ''number'']]\<rparr>)"
    using get_pull_requests_fallback_order
      [of both_cli_env "[]" "''Logged in''" "''alice''" gh_two_requests "[]"
         "JArr [JObj [(''number'', JInt 7)], JObj [(''number'', JInt 9)]]" 2 here fresh_world]
      both_cli_env_facts
    by blast
  moreover have "fst (get_pull_requests no_source_env here ''alice'' fresh_world) =
       Inr \<lparr>pull_requests = JInt 0, source_tag = ''unknown''\<rparr>"
    using get_pull_requests_fallback_order
      [of no_source_env _ _ "''alice''" _ _ _ _ here fresh_world]
      no_source_env_facts
    by blast
  ultimately show ?thesis
    by (simp add: fresh_world_def)
qed

lemma no_source_env_run:
  "get_pull_requests no_source_env here ''alice'' fresh_world =
     (Inr \<lparr>pull_requests = JInt 0, source_tag = ''unknown''\<rparr>,
      \<lparr>printed =
         [''GitHub CLI not authenticated. Run '' @ [CHR 0x27] @ ''gh auth login'' @ [CHR 0x27] @
            '' to authenticate.'',
          ''GitHub API rate limit exceeded or insufficient permissions.''],
       invoked =
         [Subprocess None [''gh'', ''auth'', ''status''],
          Subprocess None [''glab'', ''mr'', ''list'', ''--author'', ''alice'', ''--json'', ''id''],
          Subprocess (Some ''.'') [''git'', ''config'', ''--get'', ''remote.origin.url''],
          HttpGet ''https://api.github.com/search/issues?q=author:alice+repo:alice/proj+is:pr''
            []]\<rparr>)"
  by (simp add: get_pull_requests_def try_github_cli_def try_gitlab_cli_def try_github_api_def
      cli_except_def no_source_env_def null_env_def run_git_command_def io_catch_def io_bind_def
      io_return_def io_raise_def py_print_def subprocess_run_io_def http_get_io_def Let_def
      py_strip_def py_isspace_def here_def fresh_world_def search_url_def auth_headers_def
      truthy_def py_replace_def py_split_def)

section \<open>Commit counts\<close>

lemma split_from_char:
  "py_split_from [c] cur (x # xs) =
     (if x = c then rev cur # py_split_from [c] [] xs else py_split_from [c] (x # cur) xs)"
  by auto

lemma split_from_line:
  "c \<notin> set l \<Longrightarrow> py_split_from [c] cur (l @ c # s) = (rev cur @ l) # py_split_from [c] [] s"
  by (induction l arbitrary: cur) (auto simp: split_from_char simp del: py_split_from.simps)

lemma split_from_last: "c \<notin> set l \<Longrightarrow> py_split_from [c] cur l = [rev cur @ l]"
  by (induction l arbitrary: cur) (auto simp: split_from_char simp del: py_split_from.simps(2))

lemma split_lines:
  assumes "\<forall>l\<in>set xs. c \<notin> set l" and "c \<notin> set l'"
  shows "py_split [c] (concat (map (\<lambda>l. l @ [c]) xs) @ l') = xs @ [l']"
  using assms
proof (induction xs)
  case Nil
  then show ?case
    by (simp add: py_split_def split_from_last)
next
  case (Cons x xs)
  then have "py_split_from [c] [] (x @ c # (concat (map (\<lambda>l. l @ [c]) xs) @ l')) =
             x # py_split_from [c] [] (concat (map (\<lambda>l. l @ [c]) xs) @ l')"
    by (simp add: split_from_line)
  with Cons show ?case
    by (simp add: py_split_def)
qed

text \<open>stripping a listing whose lines start with a non-blank\<close>

lemma strip_listing:
  assumes first: "s \<noteq> []" "\<not> py_isspace (hd s)"
    and s: "s = a @ l @ t"
    and l: "l \<noteq> []" "\<not> py_isspace (hd l)"
    and t: "\<forall>ch\<in>set t. py_isspace ch"
  shows "py_strip s = a @ rev (dropWhile py_isspace (rev l))"
proof -
  from first have "dropWhile py_isspace s = s"
    by (cases s) simp_all
  then have "py_strip s = rev (dropWhile py_isspace (rev s))"
    by (simp add: py_strip_def)
  also have "rev s = rev t @ rev l @ rev a"
    by (simp add: s)
  also have "dropWhile py_isspace (rev t @ rev l @ rev a) = dropWhile py_isspace (rev l @ rev a)"
    using t by (intro dropWhile_append2) auto
  also have "\<dots> = dropWhile py_isspace (rev l) @ rev a"
  proof (rule dropWhile_append1)
    show "hd l \<in> set (rev l)"
      using l(1) by simp
    show "\<not> py_isspace (hd l)"
      by (rule l(2))
  qed
  finally show ?thesis
    by simp
qed

lemma rstrip_keeps_head:
  assumes "l \<noteq> []" "\<not> py_isspace (hd l)"
  shows "rev (dropWhile py_isspace (rev l)) \<noteq> []"
    and "set (rev (dropWhile py_isspace (rev l))) \<subseteq> set l"
proof -
  have "hd l \<in> set (rev l)"
    using assms(1) by simp
  then have "dropWhile py_isspace (rev l) \<noteq> []"
    using assms(2) by (auto simp: dropWhile_eq_Nil_conv)
  then show "rev (dropWhile py_isspace (rev l)) \<noteq> []"
    by simp
  show "set (rev (dropWhile py_isspace (rev l))) \<subseteq> set l"
    using set_dropWhileD [of _ py_isspace "rev l"] by auto
qed

lemma terminated_lines_snoc:
  "ls \<noteq> [] \<Longrightarrow>
   concat (map (\<lambda>l. l @ NL) ls) = concat (map (\<lambda>l. l @ NL) (butlast ls)) @ last ls @ NL"
  by (induction ls rule: rev_induct) simp_all

lemma joined_lines_snoc:
  "ls \<noteq> [] \<Longrightarrow> py_join NL ls = concat (map (\<lambda>l. l @ NL) (butlast ls)) @ last ls"
proof (induction ls rule: py_join.induct [where ?a0.0 = NL])
  case (1 sep)
  then show ?case by simp
next
  case (2 sep x)
  then show ?case by simp
next
  case (3 sep x y ys)
  then show ?case by simp
qed

lemma lines_of_stripped_listing:
  assumes ne: "ls \<noteq> []" and ok: "\<forall>l\<in>set ls. line_ok l"
    and t: "\<forall>ch\<in>set t. py_isspace ch"
  shows "py_strip (concat (map (\<lambda>l. l @ NL) (butlast ls)) @ last ls @ t) \<noteq> []"
    and "py_split NL (py_strip (concat (map (\<lambda>l. l @ NL) (butlast ls)) @ last ls @ t)) =
         butlast ls @ [rev (dropWhile py_isspace (rev (last ls)))]"
proof -
  let ?a = "concat (map (\<lambda>l. l @ NL) (butlast ls))"
  let ?s = "?a @ last ls @ t"
  let ?l' = "rev (dropWhile py_isspace (rev (last ls)))"
  from ne ok have last_ok: "line_ok (last ls)"
    by simp
  have s_ne: "?s \<noteq> []"
    using last_ok by (simp add: line_ok_def)
  have hd_s: "\<not> py_isspace (hd ?s)"
  proof (cases "butlast ls")
    case Nil
    then show ?thesis
      using last_ok by (simp add: line_ok_def)
  next
    case (Cons x xs)
    then have "x \<in> set ls"
      by (metis in_set_butlastD list.set_intros(1))
    with ok have "line_ok x"
      by simp
    with Cons show ?thesis
      by (simp add: line_ok_def)
  qed
  have strip: "py_strip ?s = ?a @ ?l'"
    using last_ok by (intro strip_listing [OF s_ne hd_s refl _ _ t]) (simp_all add: line_ok_def)
  have l'_ne: "?l' \<noteq> []" and l'_sub: "set ?l' \<subseteq> set (last ls)"
    using rstrip_keeps_head [of "last ls"] last_ok by (simp_all add: line_ok_def)
  from strip l'_ne show "py_strip ?s \<noteq> []"
    by simp
  have "\<forall>l\<in>set (butlast ls). CHR 0x0A \<notin> set l"
    using ok by (auto simp: line_ok_def dest: in_set_butlastD)
  moreover have "CHR 0x0A \<notin> set ?l'"
    using l'_sub last_ok by (auto simp: line_ok_def)
  ultimately have "py_split [CHR 0x0A] (concat (map (\<lambda>l. l @ [CHR 0x0A]) (butlast ls)) @ ?l')
                   = butlast ls @ [?l']"
    by (rule split_lines)
  with strip show "py_split NL (py_strip ?s) = butlast ls @ [?l']"
    by (simp add: NL_def)
qed

lemma count_lines_oneline_listing:
  assumes "list_all well_formed_commit H"
  shows "count_lines (py_strip (oneline_listing H)) = int (length H)"
proof (cases "H = []")
  case True
  then show ?thesis
    by (simp add: oneline_listing_def count_lines_def py_strip_def)
next
  case False
  let ?ls = "map oneline_text H"
  have ne: "?ls \<noteq> []"
    using False by simp
  have ok: "\<forall>l\<in>set ?ls. line_ok l"
    using assms by (auto simp: list_all_iff well_formed_commit_def line_ok_def)
  have t: "\<forall>ch\<in>set NL. py_isspace ch"
    by (simp add: NL_def py_isspace_def)
  have "oneline_listing H = concat (map (\<lambda>l. l @ NL) ?ls)"
    by (simp add: oneline_listing_def comp_def)
  also have "\<dots> = concat (map (\<lambda>l. l @ NL) (butlast ?ls)) @ last ?ls @ NL"
    using ne by (rule terminated_lines_snoc)
  finally have eq: "oneline_listing H = concat (map (\<lambda>l. l @ NL) (butlast ?ls)) @ last ?ls @ NL" .
  have "0 < length H"
    using False by simp
  then show ?thesis
    unfolding eq count_lines_def
    using lines_of_stripped_listing [OF ne ok t] by simp
qed

lemma rstrip_no_space:
  "list_all (\<lambda>ch. \<not> py_isspace ch) l \<Longrightarrow> rev (dropWhile py_isspace (rev l)) = l"
  by (cases "rev l") (auto simp: list_all_iff)

lemma count_unique_hash_listing:
  assumes "list_all well_formed_commit H"
  shows "count_unique (py_strip (hash_listing H)) = int (card (set (map full_hash H)))"
proof (cases "H = []")
  case True
  then show ?thesis
    by (simp add: hash_listing_def count_unique_def py_strip_def)
next
  case False
  let ?ls = "map full_hash H"
  have ne: "?ls \<noteq> []"
    using False by simp
  have ok: "\<forall>l\<in>set ?ls. line_ok l"
  proof
    fix l assume "l \<in> set ?ls"
    then obtain c where c: "c \<in> set H" "l = full_hash c"
      by auto
    with assms have wf: "l \<noteq> []" "list_all (\<lambda>ch. \<not> py_isspace ch) l"
      by (auto simp: list_all_iff well_formed_commit_def)
    then have "\<not> py_isspace (hd l)"
      by (cases l) simp_all
    moreover have "CHR 0x0A \<notin> set l"
      using wf(2) by (auto simp: list_all_iff py_isspace_def)
    ultimately show "line_ok l"
      using wf(1) by (simp add: line_ok_def)
  qed
  have last_clean: "list_all (\<lambda>ch. \<not> py_isspace ch) (last ?ls)"
  proof -
    have "last ?ls \<in> set ?ls"
      using ne by (rule last_in_set)
    then obtain c where "c \<in> set H" "last ?ls = full_hash c"
      by auto
    with assms show ?thesis
      by (auto simp: list_all_iff well_formed_commit_def)
  qed
  have eq: "hash_listing H = concat (map (\<lambda>l. l @ NL) (butlast ?ls)) @ last ?ls @ []"
    using joined_lines_snoc [OF ne] by (simp add: hash_listing_def)
  have "py_strip (hash_listing H) \<noteq> []"
    and "py_split NL (py_strip (hash_listing H)) = butlast ?ls @ [last ?ls]"
    unfolding eq
    using lines_of_stripped_listing [OF ne ok, of "[]"] rstrip_no_space [OF last_clean]
    by simp_all
  moreover have "butlast ?ls @ [last ?ls] = ?ls"
    using ne by (rule append_butlast_last_id)
  ultimately show ?thesis
    by (simp add: count_unique_def)
qed

lemma bind_git_Inr:
  assumes "io_bind (run_git_command E self command) f w = (Inr r, w')"
  shows "\<exists>out w1. git_output E self command = Inr out \<and> f out w1 = (Inr r, w')"
proof -
  from assms obtain out w1 where
    run: "run_git_command E self command w = (Inr out, w1)" and k: "f out w1 = (Inr r, w')"
    by (blast dest: io_bind_Inr)
  from run have "git_output E self command = Inr out"
    using run_git_command_fst [of E self command w] by simp
  with k show ?thesis
    by blast
qed

lemma get_commit_stats_counts:
  assumes "get_commit_stats E self username w = (Inr cs, w')"
  shows "\<exists>out_total out_hashes out_recent.
           git_output E self (log_all self username [''--oneline'']) = Inr out_total \<and>
           git_output E self (log_all self username [''--pretty=format:%H'']) = Inr out_hashes \<and>
           git_output E self (log_all self username [''--since=30 days ago'', ''--oneline''])
             = Inr out_recent \<and>
           total_commits cs = count_lines out_total \<and>
           unique_commits cs = count_unique out_hashes \<and>
           recent_commits cs = count_lines out_recent"
  using assms unfolding get_commit_stats_def
  by (auto dest!: bind_git_Inr split: prod.splits)

lemma git_output_completed:
  assumes "subprocess_run E (Some (repo_path self)) (''git'' # command) = Completed 0 out err"
  shows "git_output E self command = Inr (py_strip out)"
  using run_git_command_completed [OF assms, of fresh_world] by (simp add: git_output_def)

text \<open>
  C1, as the code has it. For every history and every date filter, when the three counting
  queries list the history, \<^verbatim>\<open>get_commit_stats\<close> returns as \<^verbatim>\<open>total_commits\<close> the number of
  listed commits, as \<^verbatim>\<open>unique_commits\<close> the number of distinct hashes and as
  \<^verbatim>\<open>recent_commits\<close> the number of listed recent commits; so
  \<^verbatim>\<open>total_commits \<ge> unique_commits \<ge> 0\<close> and \<^verbatim>\<open>total_commits \<ge> recent_commits \<ge> 0\<close>.
  \<^verbatim>\<open>unique_commits \<ge> recent_commits\<close> holds when no commit is listed twice.
\<close>

theorem commit_counts_of_a_history:
  assumes wf: "list_all well_formed_commit H"
    and total: "subprocess_run E (Some (repo_path self))
                  (''git'' # log_all self username [''--oneline''])
                = Completed 0 (oneline_listing H) err1"
    and hashes: "subprocess_run E (Some (repo_path self))
                  (''git'' # log_all self username [''--pretty=format:%H''])
                = Completed 0 (hash_listing H) err2"
    and recent: "subprocess_run E (Some (repo_path self))
                  (''git'' # log_all self username [''--since=30 days ago'', ''--oneline''])
                = Completed 0 (oneline_listing (filter is_recent H)) err3"
    and stats: "get_commit_stats E self username w = (Inr cs, w')"
  shows "total_commits cs = int (length H)
         \<and> unique_commits cs = int (card (set (map full_hash H)))
         \<and> recent_commits cs = int (length (filter is_recent H))
         \<and> unique_commits cs \<le> total_commits cs
         \<and> recent_commits cs \<le> total_commits cs
         \<and> 0 \<le> unique_commits cs
         \<and> 0 \<le> recent_commits cs
         \<and> (distinct (map full_hash H) \<longrightarrow> recent_commits cs \<le> unique_commits cs)"
proof -
  have wf_recent: "list_all well_formed_commit (filter is_recent H)"
    using wf by (simp add: list_all_iff)
  from get_commit_stats_counts [OF stats]
  have t: "total_commits cs = count_lines (py_strip (oneline_listing H))"
    and u: "unique_commits cs = count_unique (py_strip (hash_listing H))"
    and r: "recent_commits cs = count_lines (py_strip (oneline_listing (filter is_recent H)))"
    by (auto simp: git_output_completed [OF total] git_output_completed [OF hashes]
        git_output_completed [OF recent])
  have t': "total_commits cs = int (length H)"
    using t count_lines_oneline_listing [OF wf] by simp
  have u': "unique_commits cs = int (card (set (map full_hash H)))"
    using u count_unique_hash_listing [OF wf] by simp
  have r': "recent_commits cs = int (length (filter is_recent H))"
    using r count_lines_oneline_listing [OF wf_recent] by simp
  have "card (set (map full_hash H)) \<le> length H"
    using card_length [of "map full_hash H"] by simp
  moreover have "length (filter is_recent H) \<le> length H"
    by (rule length_filter_le)
  moreover have "distinct (map full_hash H) \<Longrightarrow> card (set (map full_hash H)) = length H"
    using distinct_card [of "map full_hash H"] by simp
  ultimately show ?thesis
    using t' u' r' by auto
qed

lemma history_env_answers:
  "subprocess_run (history_env H) (Some (repo_path here))
     (''git'' # log_all here ''alice'' [''--oneline'']) = Completed 0 (oneline_listing H) []"
  "subprocess_run (history_env H) (Some (repo_path here))
     (''git'' # log_all here ''alice'' [''--pretty=format:%H'']) = Completed 0 (hash_listing H) []"
  "subprocess_run (history_env H) (Some (repo_path here))
     (''git'' # log_all here ''alice'' [''--since=30 days ago'', ''--oneline''])
   = Completed 0 (oneline_listing (filter is_recent H)) []"
  by (simp_all add: history_env_def null_env_def log_all_def build_date_filter_def truthy_def
      here_def)

lemma count_unique_remdups:
  "count_unique output =
     int (length (remdups (if output \<noteq> [] then py_split NL output else [])))"
  by (simp add: count_unique_def card_set)

lemmas stats_simps = get_commit_stats_def history_env_def null_env_def here_def
  run_git_command_def io_catch_def io_bind_def io_return_def subprocess_run_io_def log_all_def
  build_date_filter_def truthy_def Let_def py_strip_def py_isspace_def NL_def py_split_def
  branch_stats_def count_lines_def count_unique_remdups oneline_listing_def hash_listing_def
  no_commits_def

lemma three_commits_stats:
  "fst (get_commit_stats (history_env three_commits) here ''alice'' w) =
     Inr (no_commits\<lparr>total_commits := 3, unique_commits := 3, recent_commits := 1\<rparr>)"
  by (simp add: stats_simps three_commits_def)

lemma three_commits_well_formed: "list_all well_formed_commit three_commits"
  by (simp add: three_commits_def well_formed_commit_def py_isspace_def)

text \<open>The theorem on the history of three commits: the counts are 3, 3 and 1.\<close>

theorem commit_counts_of_a_history_witness:
  "list_all well_formed_commit three_commits
   \<and> fst (get_commit_stats (history_env three_commits) here ''alice'' fresh_world) =
       Inr (no_commits\<lparr>total_commits := 3, unique_commits := 3, recent_commits := 1\<rparr>)
   \<and> length three_commits = 3
   \<and> card (set (map full_hash three_commits)) = 3
   \<and> length (filter is_recent three_commits) = 1
   \<and> distinct (map full_hash three_commits)"
proof -
  note run = fst_pair [OF three_commits_stats [of fresh_world]]
  note inst = commit_counts_of_a_history
    [OF three_commits_well_formed history_env_answers [of three_commits] run]
  have "distinct (map full_hash three_commits)"
    by (simp add: three_commits_def)
  with inst three_commits_well_formed three_commits_stats [of fresh_world] show ?thesis
    by simp
qed

text \<open>
  The chain \<^verbatim>\<open>unique_commits \<ge> recent_commits\<close> fails where a recent commit is listed twice:
  the merge counts twice in \<^verbatim>\<open>total_commits\<close> and in \<^verbatim>\<open>recent_commits\<close>, once in
  \<^verbatim>\<open>unique_commits\<close>, and the counts are 3, 2 and 3.
\<close>

theorem commit_listed_twice_breaks_order:
  "list_all well_formed_commit merge_listed_twice
   \<and> fst (get_commit_stats (history_env merge_listed_twice) here ''alice'' fresh_world) =
       Inr (no_commits\<lparr>total_commits := 3, unique_commits := 2, recent_commits := 3\<rparr>)
   \<and> \<not> (unique_commits
           (no_commits\<lparr>total_commits := 3, unique_commits := 2, recent_commits := 3\<rparr>)
         \<ge> recent_commits
           (no_commits\<lparr>total_commits := 3, unique_commits := 2, recent_commits := 3\<rparr>))"
proof (intro conjI)
  show "list_all well_formed_commit merge_listed_twice"
    by (simp add: merge_listed_twice_def well_formed_commit_def py_isspace_def)
  show "fst (get_commit_stats (history_env merge_listed_twice) here ''alice'' fresh_world) =
       Inr (no_commits\<lparr>total_commits := 3, unique_commits := 2, recent_commits := 3\<rparr>)"
    by (simp add: stats_simps merge_listed_twice_def)
  show "\<not> (unique_commits
           (no_commits\<lparr>total_commits := 3, unique_commits := 2, recent_commits := 3\<rparr>)
         \<ge> recent_commits
           (no_commits\<lparr>total_commits := 3, unique_commits := 2, recent_commits := 3\<rparr>))"
    by simp
qed

end
